theory Spec2Isabelle
  imports Main
begin

section \<open>JavaScript strings\<close>

text \<open>
  A JavaScript string is modelled as an Isabelle \<open>string\<close>: the list of the bytes of its
  UTF-8 encoding.  All delimiters the code looks for are ASCII, so searching and
  splitting agree with the code-unit operations of the source.  White space
  (\<^verbatim>\<open>\s\<close> in a regular expression, \<^verbatim>\<open>trim()\<close>) is the ASCII white space; the Unicode
  spaces beyond ASCII are ordinary characters of the model.
\<close>

fun startsWith :: "string \<Rightarrow> string \<Rightarrow> bool" where
  "startsWith s [] = True"
| "startsWith [] (p # ps) = False"
| "startsWith (c # cs) (p # ps) = (c = p \<and> startsWith cs ps)"

text \<open>\<^verbatim>\<open>s.includes(p)\<close>: \<open>p\<close> occurs somewhere in \<open>s\<close>.\<close>

fun str_includes :: "string \<Rightarrow> string \<Rightarrow> bool" where
  "str_includes [] p = (p = [])"
| "str_includes (c # cs) p = (startsWith (c # cs) p \<or> str_includes cs p)"

definition is_space :: "char \<Rightarrow> bool" where
  "is_space c = (c = CHR 0x09 \<or> c = CHR 0x0A \<or> c = CHR 0x0B \<or> c = CHR 0x0C \<or> c = CHR 0x0D \<or> c = CHR 0x20)"

definition trim :: "string \<Rightarrow> string" where
  "trim s = rev (dropWhile is_space (rev (dropWhile is_space s)))"

text \<open>\<^verbatim>\<open>s.split(sep)\<close> for a separator of one character: at least one segment.\<close>

fun split_on :: "char \<Rightarrow> string \<Rightarrow> string list" where
  "split_on sep [] = [[]]"
| "split_on sep (c # cs) =
     (if c = sep then [] # split_on sep cs
      else (case split_on sep cs of
              seg # segs \<Rightarrow> (c # seg) # segs
            | [] \<Rightarrow> [[c]]))"

text \<open>\<^verbatim>\<open>xs[i]\<close>: \<open>None\<close> is \<^verbatim>\<open>undefined\<close>, read beyond the end.\<close>

fun index_opt :: "'a list \<Rightarrow> nat \<Rightarrow> 'a option" where
  "index_opt [] i = None"
| "index_opt (x # xs) 0 = Some x"
| "index_opt (x # xs) (Suc i) = index_opt xs i"

definition is_digit :: "char \<Rightarrow> bool" where
  "is_digit c = (48 \<le> (of_char c :: nat) \<and> (of_char c :: nat) \<le> 57)"

definition digit_val :: "char \<Rightarrow> nat" where
  "digit_val c = of_char c - 48"

definition digits_to_nat :: "string \<Rightarrow> nat" where
  "digits_to_nat ds = foldl (\<lambda>n c. 10 * n + digit_val c) 0 ds"

definition digit_char :: "nat \<Rightarrow> char" where
  "digit_char d = ''0123456789'' ! d"

function show_nat :: "nat \<Rightarrow> string" where
  "show_nat n = (if n < 10 then [digit_char n] else show_nat (n div 10) @ [digit_char (n mod 10)])"
  by pat_completeness auto
termination
  by (relation "measure id") auto

declare show_nat.simps [simp del]

definition show_int :: "int \<Rightarrow> string" where
  "show_int i = (if i < 0 then CHR ''-'' # show_nat (nat (- i)) else show_nat (nat i))"

text \<open>Left padding with zeros to a width of at most six.\<close>

definition pad_zeros :: "nat \<Rightarrow> string \<Rightarrow> string" where
  "pad_zeros w s = take (w - length s) ''000000'' @ s"

definition hex_val :: "char \<Rightarrow> nat option" where
  "hex_val c =
     (let n = (of_char c :: nat) in
      if 48 \<le> n \<and> n \<le> 57 then Some (n - 48)
      else if 65 \<le> n \<and> n \<le> 70 then Some (n - 55)
      else if 97 \<le> n \<and> n \<le> 102 then Some (n - 87)
      else None)"

text \<open>The character with a given byte value.\<close>

definition byte_char :: "nat \<Rightarrow> char" where
  "byte_char n = Char (odd n) (odd (n div 2)) (odd (n div 4)) (odd (n div 8))
                      (odd (n div 16)) (odd (n div 32)) (odd (n div 64)) (odd (n div 128))"

section \<open>JavaScript values\<close>

text \<open>
  The values the pipeline handles are the values of JSON texts, the objects the code
  builds from them, and \<^verbatim>\<open>undefined\<close>.  A number \<open>JNum m e\<close> is the decimal
  \<open>m / 10 ^ e\<close>, kept with \<open>e = 0\<close> or \<open>m\<close> not divisible by 10, so that equal numbers are equal
  terms; the rounding of a literal to binary64 is not modelled.  An object is the list of
  its own properties, each key once.
\<close>

datatype jsval =
    JUndefined
  | JNull
  | JBool bool
  | JNum int nat
  | JStr string
  | JArr "jsval list"
  | JObj "(string \<times> jsval) list"

fun norm_dec :: "int \<Rightarrow> nat \<Rightarrow> int \<times> nat" where
  "norm_dec m 0 = (m, 0)"
| "norm_dec m (Suc e) = (if m mod 10 = 0 then norm_dec (m div 10) e else (m, Suc e))"

definition mk_num :: "int \<Rightarrow> nat \<Rightarrow> jsval" where
  "mk_num m e = (case norm_dec m e of (m', e') \<Rightarrow> JNum m' e')"

text \<open>Writing a property: the value of an existing key is replaced in place.\<close>

fun obj_set :: "string \<Rightarrow> jsval \<Rightarrow> (string \<times> jsval) list \<Rightarrow> (string \<times> jsval) list" where
  "obj_set k v [] = [(k, v)]"
| "obj_set k v (p # ps) = (if fst p = k then (k, v) # ps else p # obj_set k v ps)"

section \<open>JSON.parse\<close>

text \<open>
  \<^verbatim>\<open>JSON.parse\<close> is modelled by a lexer and a stack automaton over its tokens, following
  the JSON grammar of ECMA-404: white space is space, tab, line feed and carriage return;
  a string may not contain a raw control character; a number may not start with a
  superfluous zero; a key defined twice keeps its last value.  \<open>None\<close> is a SyntaxError.
\<close>

datatype token = TLBrace | TRBrace | TLBracket | TRBracket | TColon | TComma | TAtom jsval

text \<open>A piece of a string literal: a raw byte, or the code unit of a \<^verbatim>\<open>\uXXXX\<close> escape.\<close>

datatype piece = Raw char | Unit nat

definition simple_escape :: "char \<Rightarrow> char option" where
  "simple_escape e =
     (if e = CHR 0x22 then Some (CHR 0x22)
      else if e = CHR 0x5C then Some (CHR 0x5C)
      else if e = CHR ''/'' then Some (CHR ''/'')
      else if e = CHR ''b'' then Some (CHR 0x08)
      else if e = CHR ''f'' then Some (CHR 0x0C)
      else if e = CHR ''n'' then Some (CHR 0x0A)
      else if e = CHR ''r'' then Some (CHR 0x0D)
      else if e = CHR ''t'' then Some (CHR 0x09)
      else None)"

definition hex4 :: "char \<Rightarrow> char \<Rightarrow> char \<Rightarrow> char \<Rightarrow> nat option" where
  "hex4 a b c d =
     (case (hex_val a, hex_val b, hex_val c, hex_val d) of
        (Some x, Some y, Some z, Some w) \<Rightarrow> Some (((x * 16 + y) * 16 + z) * 16 + w)
      | _ \<Rightarrow> None)"

text \<open>The body of a string literal, after the opening quote: its pieces and the rest of the text.\<close>

fun lex_string :: "string \<Rightarrow> (piece list \<times> string) option" where
  "lex_string [] = None"
| "lex_string (c # cs) =
     (if c = CHR 0x22 then Some ([], cs)
      else if c = CHR 0x5C then
        (case cs of
           [] \<Rightarrow> None
         | e # r \<Rightarrow>
             if e = CHR ''u'' then
               (case r of
                  h1 # h2 # h3 # h4 # r' \<Rightarrow>
                    (case hex4 h1 h2 h3 h4 of
                       None \<Rightarrow> None
                     | Some cu \<Rightarrow> map_option (\<lambda>(ps, rest). (Unit cu # ps, rest)) (lex_string r'))
                | _ \<Rightarrow> None)
             else
               (case simple_escape e of
                  None \<Rightarrow> None
                | Some ch \<Rightarrow> map_option (\<lambda>(ps, rest). (Raw ch # ps, rest)) (lex_string r)))
      else if (of_char c :: nat) < 32 then None
      else map_option (\<lambda>(ps, rest). (Raw c # ps, rest)) (lex_string cs))"

text \<open>UTF-8 of a code point; an unpaired surrogate is encoded like any three-byte code point.\<close>

definition utf8 :: "nat \<Rightarrow> string" where
  "utf8 cp =
     (if cp < 128 then [byte_char cp]
      else if cp < 2048 then [byte_char (192 + cp div 64), byte_char (128 + cp mod 64)]
      else if cp < 65536 then
        [byte_char (224 + cp div 4096), byte_char (128 + (cp div 64) mod 64), byte_char (128 + cp mod 64)]
      else
        [byte_char (240 + cp div 262144), byte_char (128 + (cp div 4096) mod 64),
         byte_char (128 + (cp div 64) mod 64), byte_char (128 + cp mod 64)])"

fun pieces_to_string :: "piece list \<Rightarrow> string" where
  "pieces_to_string [] = []"
| "pieces_to_string (Raw c # ps) = c # pieces_to_string ps"
| "pieces_to_string [Unit u] = utf8 u"
| "pieces_to_string (Unit u # Raw c # ps) = utf8 u @ c # pieces_to_string ps"
| "pieces_to_string (Unit u # Unit v # ps) =
     (if 55296 \<le> u \<and> u < 56320 \<and> 56320 \<le> v \<and> v < 57344
      then utf8 (65536 + (u - 55296) * 1024 + (v - 56320)) @ pieces_to_string ps
      else utf8 u @ pieces_to_string (Unit v # ps))"

text \<open>
  A number literal at the head of the text, in its three parts: the integer part with its
  sign, the optional fraction, the optional exponent.
\<close>

definition lex_int_part :: "string \<Rightarrow> (bool \<times> string \<times> string) option" where
  "lex_int_part s =
     (let neg = startsWith s ''-'';
          s1 = (if neg then tl s else s);
          ip = takeWhile is_digit s1
      in if ip = [] \<or> (length ip > 1 \<and> hd ip = CHR ''0'') then None
         else Some (neg, ip, dropWhile is_digit s1))"

definition lex_fraction :: "string \<Rightarrow> (string \<times> string) option" where
  "lex_fraction s =
     (if startsWith s ''.'' then
        (if takeWhile is_digit (tl s) = [] then None
         else Some (takeWhile is_digit (tl s), dropWhile is_digit (tl s)))
      else Some ([], s))"

definition lex_exponent :: "string \<Rightarrow> (int \<times> string) option" where
  "lex_exponent s =
     (if startsWith s ''e'' \<or> startsWith s ''E'' then
        (let s1 = tl s;
             eneg = startsWith s1 ''-'';
             s2 = (if startsWith s1 ''-'' \<or> startsWith s1 ''+'' then tl s1 else s1);
             ep = takeWhile is_digit s2
         in if ep = [] then None
            else Some (if eneg then - int (digits_to_nat ep) else int (digits_to_nat ep),
                       dropWhile is_digit s2))
      else Some (0, s))"

definition lex_number :: "string \<Rightarrow> (jsval \<times> string) option" where
  "lex_number s =
     (case lex_int_part s of
        None \<Rightarrow> None
      | Some (neg, ip, r1) \<Rightarrow>
          (case lex_fraction r1 of
             None \<Rightarrow> None
           | Some (fp, r2) \<Rightarrow>
               (case lex_exponent r2 of
                  None \<Rightarrow> None
                | Some (ex, r3) \<Rightarrow>
                    (let mant = (if neg then - int (digits_to_nat (ip @ fp)) else int (digits_to_nat (ip @ fp)));
                         sc = ex - int (length fp)
                     in Some (if sc \<ge> 0 then JNum (mant * 10 ^ nat sc) 0 else mk_num mant (nat (- sc)),
                              r3)))))"

lemma lex_string_shorter: "lex_string cs = Some (ps, rest) \<Longrightarrow> length rest < length cs"
proof (induction "length cs" arbitrary: cs ps rest rule: less_induct)
  case less
  note IH = less.hyps
  show ?case
  proof (cases cs)
    case Nil
    with less.prems show ?thesis by simp
  next
    case (Cons c cs')
    show ?thesis
    proof (cases "c = CHR 0x22")
      case True
      with less.prems Cons show ?thesis by simp
    next
      case nq: False
      show ?thesis
      proof (cases "c = CHR 0x5C")
        case False
        with less.prems Cons nq obtain ps' where "lex_string cs' = Some (ps', rest)"
          by (auto split: if_splits)
        from IH[OF _ this] Cons show ?thesis by simp
      next
        case True
        with less.prems Cons nq obtain e r where cs': "cs' = e # r"
          by (cases cs') auto
        show ?thesis
        proof (cases "e = CHR ''u''")
          case False
          with less.prems Cons nq True cs' obtain ps' where "lex_string r = Some (ps', rest)"
            by (auto split: option.splits)
          from IH[OF _ this] Cons cs' show ?thesis by simp
        next
          case u: True
          with less.prems Cons nq True cs' obtain h1 h2 h3 h4 r' ps'
            where "r = h1 # h2 # h3 # h4 # r'" "lex_string r' = Some (ps', rest)"
            by (auto split: option.splits list.splits)
          with IH[of r' ps' rest] Cons cs' show ?thesis by simp
        qed
      qed
    qed
  qed
qed

lemma lex_int_part_shorter: "lex_int_part s = Some (neg, ip, rest) \<Longrightarrow> length rest < length s"
proof -
  assume a: "lex_int_part s = Some (neg, ip, rest)"
  define s1 where "s1 = (if startsWith s ''-'' then tl s else s)"
  from a have ne: "takeWhile is_digit s1 \<noteq> []" and rest: "rest = dropWhile is_digit s1"
    unfolding lex_int_part_def Let_def s1_def[symmetric] by (simp_all split: if_split_asm)
  have "length s1 = length (takeWhile is_digit s1) + length (dropWhile is_digit s1)"
    by (metis length_append takeWhile_dropWhile_id)
  with ne have "length (dropWhile is_digit s1) < length s1" by simp
  moreover have "length s1 \<le> length s" by (simp add: s1_def)
  ultimately show ?thesis using rest by simp
qed

lemma lex_fraction_shorter: "lex_fraction s = Some (fp, rest) \<Longrightarrow> length rest \<le> length s"
  using length_dropWhile_le[of is_digit "tl s"]
  by (auto simp: lex_fraction_def split: if_split_asm)

lemma lex_exponent_shorter: "lex_exponent s = Some (ex, rest) \<Longrightarrow> length rest \<le> length s"
proof -
  assume a: "lex_exponent s = Some (ex, rest)"
  define s2 where "s2 = (if startsWith (tl s) ''-'' \<or> startsWith (tl s) ''+'' then tl (tl s) else tl s)"
  have l: "length s2 \<le> length s" by (simp add: s2_def)
  from a have "rest = s \<or> rest = dropWhile is_digit s2"
    unfolding lex_exponent_def Let_def s2_def[symmetric] by (simp split: if_split_asm)
  then show ?thesis using l length_dropWhile_le[of is_digit s2] by auto
qed

lemma lex_number_shorter: "lex_number s = Some (v, rest) \<Longrightarrow> length rest < length s"
  unfolding lex_number_def Let_def
  by (auto split: option.splits prod.splits
      dest!: lex_int_part_shorter lex_fraction_shorter lex_exponent_shorter)

text \<open>One step of the lexer on a non-empty text: white space is skipped, anything else is a token.\<close>

definition lex_token :: "char \<Rightarrow> string \<Rightarrow> (token option \<times> string) option" where
  "lex_token c cs =
     (if c = CHR 0x20 \<or> c = CHR 0x09 \<or> c = CHR 0x0A \<or> c = CHR 0x0D then Some (None, cs)
      else if c = CHR ''{'' then Some (Some TLBrace, cs)
      else if c = CHR ''}'' then Some (Some TRBrace, cs)
      else if c = CHR ''['' then Some (Some TLBracket, cs)
      else if c = CHR '']'' then Some (Some TRBracket, cs)
      else if c = CHR '':'' then Some (Some TColon, cs)
      else if c = CHR '','' then Some (Some TComma, cs)
      else if c = CHR 0x22 then
        map_option (\<lambda>(ps, rest). (Some (TAtom (JStr (pieces_to_string ps))), rest)) (lex_string cs)
      else if c = CHR ''-'' \<or> is_digit c then
        map_option (\<lambda>(v, rest). (Some (TAtom v), rest)) (lex_number (c # cs))
      else if startsWith (c # cs) ''true'' then Some (Some (TAtom (JBool True)), drop 3 cs)
      else if startsWith (c # cs) ''false'' then Some (Some (TAtom (JBool False)), drop 4 cs)
      else if startsWith (c # cs) ''null'' then Some (Some (TAtom JNull), drop 3 cs)
      else None)"

lemma lex_token_shorter: "lex_token c cs = Some (t, rest) \<Longrightarrow> length rest \<le> length cs"
  unfolding lex_token_def
  apply (simp only: split: if_split_asm)
  apply simp_all
  subgoal by (elim exE conjE, drule lex_string_shorter) simp
  subgoal by (elim exE conjE, drule lex_number_shorter) simp
  subgoal by (elim conjE) (simp add: eq_commute[of _ rest])
  subgoal by (elim conjE) (simp add: eq_commute[of _ rest])
  subgoal by (elim conjE) (simp add: eq_commute[of _ rest])
  done

function lex :: "string \<Rightarrow> token list option" where
  "lex [] = Some []"
| "lex (c # cs) =
     (case lex_token c cs of
        None \<Rightarrow> None
      | Some (t, rest) \<Rightarrow>
          (case lex rest of
             None \<Rightarrow> None
           | Some ts \<Rightarrow> Some (case t of None \<Rightarrow> ts | Some tk \<Rightarrow> tk # ts)))"
  by pat_completeness auto
termination
  by (relation "measure length") (auto dest: lex_token_shorter)


text \<open>The automaton.  A frame is a container under construction.\<close>

datatype frame = InArray "jsval list" | InObject "(string \<times> jsval) list" string

datatype pstate =
    Start_value "frame list"
  | Arr_first "frame list"
  | Arr_next "jsval list" "frame list"
  | Obj_first "frame list"
  | Obj_key "(string \<times> jsval) list" "frame list"
  | Obj_colon "(string \<times> jsval) list" string "frame list"
  | Obj_next "(string \<times> jsval) list" "frame list"
  | Finished jsval
  | Failed

text \<open>A complete value goes to the container on top of the stack.\<close>

fun deliver :: "jsval \<Rightarrow> frame list \<Rightarrow> pstate" where
  "deliver v [] = Finished v"
| "deliver v (InArray acc # st) = Arr_next (acc @ [v]) st"
| "deliver v (InObject kvs k # st) = Obj_next (obj_set k v kvs) st"

fun value_start :: "token \<Rightarrow> frame list \<Rightarrow> pstate" where
  "value_start (TAtom v) st = deliver v st"
| "value_start TLBracket st = Arr_first st"
| "value_start TLBrace st = Obj_first st"
| "value_start _ st = Failed"

fun step :: "pstate \<Rightarrow> token \<Rightarrow> pstate" where
  "step (Start_value st) t = value_start t st"
| "step (Arr_first st) t = (if t = TRBracket then deliver (JArr []) st else value_start t (InArray [] # st))"
| "step (Arr_next acc st) t =
     (if t = TComma then Start_value (InArray acc # st)
      else if t = TRBracket then deliver (JArr acc) st
      else Failed)"
| "step (Obj_first st) t =
     (case t of
        TRBrace \<Rightarrow> deliver (JObj []) st
      | TAtom (JStr k) \<Rightarrow> Obj_colon [] k st
      | _ \<Rightarrow> Failed)"
| "step (Obj_key kvs st) t =
     (case t of
        TAtom (JStr k) \<Rightarrow> Obj_colon kvs k st
      | _ \<Rightarrow> Failed)"
| "step (Obj_colon kvs k st) t = (if t = TColon then Start_value (InObject kvs k # st) else Failed)"
| "step (Obj_next kvs st) t =
     (if t = TComma then Obj_key kvs st
      else if t = TRBrace then deliver (JObj kvs) st
      else Failed)"
| "step (Finished v) t = Failed"
| "step Failed t = Failed"

definition JSON_parse :: "string \<Rightarrow> jsval option" where
  "JSON_parse s =
     (case lex s of
        None \<Rightarrow> None
      | Some ts \<Rightarrow>
          (case foldl step (Start_value []) ts of
             Finished v \<Rightarrow> Some v
           | _ \<Rightarrow> None))"

section \<open>Operations on values\<close>

text \<open>
  A thrown value, as far as the code inspects it: its \<open>message\<close> property, which may be
  absent.
\<close>

datatype js_error = Error (message: "string option")

definition TypeError_reading :: "string \<Rightarrow> string \<Rightarrow> js_error" where
  "TypeError_reading what k =
     Error (Some (''Cannot read properties of '' @ what @ '' (reading '' @ [CHR 0x27] @ k @ [CHR 0x27] @ '')''))"

definition truthy :: "jsval \<Rightarrow> bool" where
  "truthy v =
     (case v of
        JUndefined \<Rightarrow> False
      | JNull \<Rightarrow> False
      | JBool b \<Rightarrow> b
      | JNum m e \<Rightarrow> m \<noteq> 0
      | JStr s \<Rightarrow> s \<noteq> []
      | JArr xs \<Rightarrow> True
      | JObj kvs \<Rightarrow> True)"

text \<open>\<^verbatim>\<open>a || b\<close>\<close>

definition js_or :: "jsval \<Rightarrow> jsval \<Rightarrow> jsval" where
  "js_or a b = (if truthy a then a else b)"

text \<open>
  \<^verbatim>\<open>v.k\<close> for the data keys the code reads (\<^verbatim>\<open>links\<close>, \<^verbatim>\<open>url\<close>, \<^verbatim>\<open>name\<close>, \<^verbatim>\<open>start_time\<close>, ...),
  none of which is a member of a builtin prototype: a TypeError on \<^verbatim>\<open>null\<close> and
  \<^verbatim>\<open>undefined\<close>, the own property of an object, \<^verbatim>\<open>undefined\<close> otherwise.
\<close>

definition get_prop :: "jsval \<Rightarrow> string \<Rightarrow> js_error + jsval" where
  "get_prop v k =
     (case v of
        JUndefined \<Rightarrow> Inl (TypeError_reading ''undefined'' k)
      | JNull \<Rightarrow> Inl (TypeError_reading ''null'' k)
      | JObj kvs \<Rightarrow> Inr (case map_of kvs k of Some x \<Rightarrow> x | None \<Rightarrow> JUndefined)
      | _ \<Rightarrow> Inr JUndefined)"

fun join :: "string \<Rightarrow> string list \<Rightarrow> string" where
  "join sep [] = []"
| "join sep [s] = s"
| "join sep (s # t # ss) = s @ sep @ join sep (t # ss)"

text \<open>
  \<^verbatim>\<open>Number::toString\<close> of ECMA-262 on the decimal digits of the number (exact as long as the
  literal has no more digits than a binary64 keeps).
\<close>

definition Number_toString :: "int \<Rightarrow> nat \<Rightarrow> string" where
  "Number_toString m e =
     (if m = 0 then ''0''
      else
        (let ds0 = show_nat (nat \<bar>m\<bar>);
             ds = rev (dropWhile (\<lambda>c. c = CHR ''0'') (rev ds0));
             k = int (length ds);
             n = int (length ds0) - int e;
             body =
               (if k \<le> n \<and> n \<le> 21 then ds @ replicate (nat (n - k)) CHR ''0''
                else if 0 < n \<and> n \<le> 21 then take (nat n) ds @ ''.'' @ drop (nat n) ds
                else if - 6 < n \<and> n \<le> 0 then ''0.'' @ replicate (nat (- n)) CHR ''0'' @ ds
                else (if k = 1 then ds else take 1 ds @ ''.'' @ drop 1 ds)
                     @ ''e'' @ (if n - 1 < 0 then ''-'' else ''+'') @ show_nat (nat \<bar>n - 1\<bar>))
         in (if m < 0 then ''-'' else []) @ body))"

text \<open>
  \<^verbatim>\<open>ToString\<close>, as a template literal applies it.  An array is the join of its elements,
  \<^verbatim>\<open>null\<close> and \<^verbatim>\<open>undefined\<close> elements being empty; an object (one that does not shadow
  \<^verbatim>\<open>toString\<close>) is \<^verbatim>\<open>[object Object]\<close>.
\<close>

fun ToString :: "jsval \<Rightarrow> string" where
  "ToString JUndefined = ''undefined''"
| "ToString JNull = ''null''"
| "ToString (JBool b) = (if b then ''true'' else ''false'')"
| "ToString (JNum m e) = Number_toString m e"
| "ToString (JStr s) = s"
| "ToString (JArr xs) =
     join '','' (map (\<lambda>x. if x = JNull \<or> x = JUndefined then [] else ToString x) xs)"
| "ToString (JObj kvs) = ''[object Object]''"

text \<open>\<^verbatim>\<open>a + b\<close>: concatenation as soon as one side is not a number, boolean or \<^verbatim>\<open>null\<close>.\<close>

definition ToNumber :: "jsval \<Rightarrow> (int \<times> nat) option" where
  "ToNumber v =
     (case v of
        JNull \<Rightarrow> Some (0, 0)
      | JBool b \<Rightarrow> Some (if b then 1 else 0, 0)
      | JNum m e \<Rightarrow> Some (m, e)
      | _ \<Rightarrow> None)"

definition is_stringy :: "jsval \<Rightarrow> bool" where
  "is_stringy v = (case v of JStr s \<Rightarrow> True | JArr xs \<Rightarrow> True | JObj kvs \<Rightarrow> True | _ \<Rightarrow> False)"

definition js_plus :: "jsval \<Rightarrow> jsval \<Rightarrow> jsval" where
  "js_plus a b =
     (if is_stringy a \<or> is_stringy b then JStr (ToString a @ ToString b)
      else
        (case (ToNumber a, ToNumber b) of
           (Some (m1, e1), Some (m2, e2)) \<Rightarrow>
             mk_num (m1 * 10 ^ (max e1 e2 - e1) + m2 * 10 ^ (max e1 e2 - e2)) (max e1 e2)
         | _ \<Rightarrow> JUndefined))"

text \<open>
  The own enumerable properties that \<^verbatim>\<open>{...v}\<close> copies: those of an object, the indices
  of an array or of a string, none of any other value.
\<close>

definition indexed :: "jsval list \<Rightarrow> (string \<times> jsval) list" where
  "indexed xs = zip (map show_nat [0 ..< length xs]) xs"

definition spread_props :: "jsval \<Rightarrow> (string \<times> jsval) list" where
  "spread_props v =
     (case v of
        JObj kvs \<Rightarrow> kvs
      | JArr xs \<Rightarrow> indexed xs
      | JStr s \<Rightarrow> indexed (map (\<lambda>c. JStr [c]) s)
      | _ \<Rightarrow> [])"

text \<open>The elements that \<^verbatim>\<open>push(...v)\<close> appends: a TypeError when \<open>v\<close> is not iterable.\<close>

definition spread_elems :: "jsval \<Rightarrow> js_error + jsval list" where
  "spread_elems v =
     (case v of
        JArr xs \<Rightarrow> Inr xs
      | JStr s \<Rightarrow> Inr (map (\<lambda>c. JStr [c]) s)
      | _ \<Rightarrow> Inl (Error (Some ''Spread syntax requires ...iterable[Symbol.iterator] to be a function'')))"



section \<open>Regular expressions of the extractors\<close>

definition to_lower :: "char \<Rightarrow> char" where
  "to_lower c = (if 65 \<le> (of_char c :: nat) \<and> (of_char c :: nat) \<le> 90 then byte_char (of_char c + 32) else c)"

text \<open>A closing fence, possibly after white space, starts here: \<^verbatim>\<open>\s*```\<close>.\<close>

definition closes_here :: "string \<Rightarrow> bool" where
  "closes_here s = startsWith (dropWhile is_space s) ''```''"

text \<open>The lazy group \<^verbatim>\<open>([\s\S]*?)\<close> before \<^verbatim>\<open>\s*```\<close>: the shortest prefix after which a fence closes.\<close>

fun lazy_until_close :: "string \<Rightarrow> string option" where
  "lazy_until_close [] = None"
| "lazy_until_close (c # cs) =
     (if closes_here (c # cs) then Some [] else map_option ((#) c) (lazy_until_close cs))"

text \<open>\<^verbatim>\<open>\s*([\s\S]*?)\s*```\<close> after an opening fence: the greedy white space, then the group.\<close>

definition group_after_open :: "string \<Rightarrow> string option" where
  "group_after_open s = lazy_until_close (dropWhile is_space s)"

text \<open>
  \<^verbatim>\<open>text.match(/```json\s*([\s\S]*?)\s*```/i)\<close>: group 1 of the leftmost match, \<open>None\<close> when
  nothing matches.
\<close>

fun match_json_fence :: "string \<Rightarrow> string option" where
  "match_json_fence [] = None"
| "match_json_fence (c # cs) =
     (if startsWith (map to_lower (c # cs)) ''```json'' then
        (case group_after_open (drop 6 cs) of
           Some g \<Rightarrow> Some g
         | None \<Rightarrow> match_json_fence cs)
      else match_json_fence cs)"

text \<open>\<^verbatim>\<open>text.match(/```\s*([\s\S]*?)\s*```/)\<close>\<close>

fun match_any_fence :: "string \<Rightarrow> string option" where
  "match_any_fence [] = None"
| "match_any_fence (c # cs) =
     (if startsWith (c # cs) ''```'' then
        (case group_after_open (drop 2 cs) of
           Some g \<Rightarrow> Some g
         | None \<Rightarrow> match_any_fence cs)
      else match_any_fence cs)"

text \<open>
  \<^verbatim>\<open>/\{[\s\S]*\}/\<close> and \<^verbatim>\<open>/\[[\s\S]*\]/\<close>: from the first opening character to the last closing
  one after it.
\<close>

definition match_span :: "char \<Rightarrow> char \<Rightarrow> string \<Rightarrow> string option" where
  "match_span opn cls s =
     (case dropWhile (\<lambda>c. c \<noteq> opn) s of
        [] \<Rightarrow> None
      | c # body \<Rightarrow>
          (case dropWhile (\<lambda>c. c \<noteq> cls) (rev body) of
             [] \<Rightarrow> None
           | r \<Rightarrow> Some (opn # rev r)))"

section \<open>planner.js: extractJSON\<close>

text \<open>Each fallback on its own; \<open>None\<close> when it does not apply or its \<^verbatim>\<open>JSON.parse\<close> throws.\<close>

definition from_json_fence :: "string \<Rightarrow> jsval option" where
  "from_json_fence text =
     (case match_json_fence text of
        None \<Rightarrow> None
      | Some g \<Rightarrow> if g \<noteq> [] then JSON_parse (trim g) else None)"

definition from_any_fence :: "string \<Rightarrow> jsval option" where
  "from_any_fence text =
     (case match_any_fence text of
        None \<Rightarrow> None
      | Some g \<Rightarrow>
          if g \<noteq> [] then
            (let content = trim g in
             if startsWith content ''{'' \<or> startsWith content ''['' then JSON_parse content else None)
          else None)"

definition from_object_span :: "string \<Rightarrow> jsval option" where
  "from_object_span text =
     (case match_span CHR ''{'' CHR ''}'' text of
        None \<Rightarrow> None
      | Some m \<Rightarrow> JSON_parse m)"

definition from_array_span :: "string \<Rightarrow> jsval option" where
  "from_array_span text =
     (case match_span CHR ''['' CHR '']'' text of
        None \<Rightarrow> None
      | Some m \<Rightarrow> JSON_parse m)"

definition extractJSON :: "string \<Rightarrow> js_error + jsval" where
  "extractJSON text =
     (case JSON_parse text of
        Some v \<Rightarrow> Inr v
      | None \<Rightarrow>
     (case from_json_fence text of
        Some v \<Rightarrow> Inr v
      | None \<Rightarrow>
     (case from_any_fence text of
        Some v \<Rightarrow> Inr v
      | None \<Rightarrow>
     (case from_object_span text of
        Some v \<Rightarrow> Inr v
      | None \<Rightarrow>
     (case from_array_span text of
        Some arr \<Rightarrow> Inr (JObj [(''itinerary'', arr)])
      | None \<Rightarrow>
          Inl (Error (Some (''Could not extract valid JSON from response. First 200 chars: ''
                            @ take 200 text))))))))"

section \<open>scout.js and explorer.js: extractJSON\<close>

text \<open>
  The two modules have the same extractor, with three strategies, and differ in the
  message of the error.  \<open>None\<close> for the text is an \<^verbatim>\<open>undefined\<close> \<^verbatim>\<open>response.text\<close>, whose
  \<^verbatim>\<open>match\<close> cannot be read.
\<close>

definition extractJSON3 :: "string \<Rightarrow> string option \<Rightarrow> js_error + jsval" where
  "extractJSON3 who t =
     (case t of
        None \<Rightarrow> Inl (TypeError_reading ''undefined'' ''match'')
      | Some text \<Rightarrow>
     (case JSON_parse text of
        Some v \<Rightarrow> Inr v
      | None \<Rightarrow>
     (case from_json_fence text of
        Some v \<Rightarrow> Inr v
      | None \<Rightarrow>
     (case from_object_span text of
        Some v \<Rightarrow> Inr v
      | None \<Rightarrow> Inl (Error (Some (''Could not extract JSON from '' @ who @ '' response'')))))))"

section \<open>Dates\<close>

text \<open>
  A \<^verbatim>\<open>Date\<close> is its time value, milliseconds since the epoch in UTC; \<open>None\<close> is the invalid
  date (\<^verbatim>\<open>NaN\<close>).  What ECMA-262 leaves to the host is a parameter: the offset of local
  time, \<^verbatim>\<open>LocalTZA(t, isUTC)\<close>, and \<^verbatim>\<open>Date.parse\<close> on a string that is not a calendar date
  \<^verbatim>\<open>YYYY-MM-DD\<close> (date-time forms, whose reading depends on the time zone, and the
  implementation-defined formats).
\<close>

record js_env =
  LocalTZA :: "int \<Rightarrow> bool \<Rightarrow> int"
  Date_parse_other :: "string \<Rightarrow> int option"

definition msPerDay :: int where
  "msPerDay = 86400000"

text \<open>The day number of a date of the proleptic Gregorian calendar, and back (\<^verbatim>\<open>MakeDay\<close>,
  \<^verbatim>\<open>YearFromTime\<close>, \<^verbatim>\<open>MonthFromTime\<close>, \<^verbatim>\<open>DateFromTime\<close> of ECMA-262; months count from 1 here).\<close>

definition days_from_civil :: "int \<Rightarrow> int \<Rightarrow> int \<Rightarrow> int" where
  "days_from_civil y m d =
     (let y' = (if m \<le> 2 then y - 1 else y);
          era = y' div 400;
          yoe = y' - era * 400;
          doy = (153 * (if m > 2 then m - 3 else m + 9) + 2) div 5 + d - 1;
          doe = yoe * 365 + yoe div 4 - yoe div 100 + doy
      in era * 146097 + doe - 719468)"

definition day_of_era :: "int \<Rightarrow> int" where
  "day_of_era z = (z + 719468) mod 146097"

definition year_of_era :: "int \<Rightarrow> int" where
  "year_of_era z =
     (day_of_era z - day_of_era z div 1460 + day_of_era z div 36524 - day_of_era z div 146096) div 365"

definition day_of_year :: "int \<Rightarrow> int" where
  "day_of_year z = day_of_era z - (365 * year_of_era z + year_of_era z div 4 - year_of_era z div 100)"

definition MonthFromDay :: "int \<Rightarrow> int" where
  "MonthFromDay z =
     (if (5 * day_of_year z + 2) div 153 < 10
      then (5 * day_of_year z + 2) div 153 + 3
      else (5 * day_of_year z + 2) div 153 - 9)"

definition DateFromDay :: "int \<Rightarrow> int" where
  "DateFromDay z = day_of_year z - (153 * ((5 * day_of_year z + 2) div 153) + 2) div 5 + 1"

definition YearFromDay :: "int \<Rightarrow> int" where
  "YearFromDay z =
     year_of_era z + ((z + 719468) div 146097) * 400 + (if MonthFromDay z \<le> 2 then 1 else 0)"

definition days_in_month :: "int \<Rightarrow> int \<Rightarrow> int" where
  "days_in_month y m =
     (if m = 2 then (if y mod 4 = 0 \<and> (y mod 100 \<noteq> 0 \<or> y mod 400 = 0) then 29 else 28)
      else if m = 4 \<or> m = 6 \<or> m = 9 \<or> m = 11 then 30
      else 31)"

definition TimeClip :: "int \<Rightarrow> int option" where
  "TimeClip t = (if \<bar>t\<bar> \<le> 8640000000000000 then Some t else None)"

text \<open>A string of the form \<^verbatim>\<open>YYYY-MM-DD\<close> that names a date of the calendar: midnight UTC of that day.\<close>

definition parse_date_only :: "string \<Rightarrow> int option" where
  "parse_date_only s =
     (case s of
        [y1, y2, y3, y4, h1, m1, m2, h2, d1, d2] \<Rightarrow>
          (let y = int (digits_to_nat [y1, y2, y3, y4]);
               m = int (digits_to_nat [m1, m2]);
               d = int (digits_to_nat [d1, d2])
           in if list_all is_digit [y1, y2, y3, y4, m1, m2, d1, d2] \<and> h1 = CHR ''-'' \<and> h2 = CHR ''-''
                 \<and> 1 \<le> m \<and> m \<le> 12 \<and> 1 \<le> d \<and> d \<le> days_in_month y m
              then Some (days_from_civil y m d * msPerDay)
              else None)
      | _ \<Rightarrow> None)"

text \<open>\<^verbatim>\<open>new Date(s)\<close> for a string \<open>s\<close>.\<close>

definition new_Date :: "js_env \<Rightarrow> string \<Rightarrow> int option" where
  "new_Date env s =
     (case parse_date_only s of
        Some t \<Rightarrow> TimeClip t
      | None \<Rightarrow> (case Date_parse_other env s of None \<Rightarrow> None | Some t \<Rightarrow> TimeClip t))"

text \<open>\<^verbatim>\<open>a <= b\<close> on dates: false as soon as one is invalid.\<close>

definition date_le :: "int option \<Rightarrow> int option \<Rightarrow> bool" where
  "date_le a b = (case (a, b) of (Some x, Some y) \<Rightarrow> x \<le> y | _ \<Rightarrow> False)"

text \<open>\<^verbatim>\<open>toISOString()\<close> of a valid date.\<close>

definition iso_year :: "int \<Rightarrow> string" where
  "iso_year y =
     (if 0 \<le> y \<and> y \<le> 9999 then pad_zeros 4 (show_nat (nat y))
      else (if y < 0 then ''-'' else ''+'') @ pad_zeros 6 (show_nat (nat \<bar>y\<bar>)))"

definition toISOString :: "int \<Rightarrow> string" where
  "toISOString t =
     iso_year (YearFromDay (t div msPerDay))
     @ ''-'' @ pad_zeros 2 (show_nat (nat (MonthFromDay (t div msPerDay))))
     @ ''-'' @ pad_zeros 2 (show_nat (nat (DateFromDay (t div msPerDay))))
     @ ''T'' @ pad_zeros 2 (show_nat (nat ((t mod msPerDay) div 3600000)))
     @ '':'' @ pad_zeros 2 (show_nat (nat (((t mod msPerDay) div 60000) mod 60)))
     @ '':'' @ pad_zeros 2 (show_nat (nat (((t mod msPerDay) div 1000) mod 60)))
     @ ''.'' @ pad_zeros 3 (show_nat (nat ((t mod msPerDay) mod 1000))) @ ''Z''"

text \<open>
  \<^verbatim>\<open>d.setDate(d.getDate() + 1)\<close>: the local time of the date moves one day on, and is read
  back as UTC (\<^verbatim>\<open>LocalTime\<close>, \<^verbatim>\<open>MakeDay\<close>, \<^verbatim>\<open>UTC\<close>, \<^verbatim>\<open>TimeClip\<close> of ECMA-262).
\<close>

definition LocalTime :: "js_env \<Rightarrow> int \<Rightarrow> int" where
  "LocalTime env t = t + LocalTZA env t True"

definition UTC :: "js_env \<Rightarrow> int \<Rightarrow> int" where
  "UTC env t = t - LocalTZA env t False"

definition setDate_next :: "js_env \<Rightarrow> int \<Rightarrow> int option" where
  "setDate_next env tv = TimeClip (UTC env (LocalTime env tv + msPerDay))"

text \<open>\<^verbatim>\<open>d.toISOString().split("T")[0]\<close>\<close>

definition date_string :: "int \<Rightarrow> string" where
  "date_string t = hd (split_on CHR ''T'' (toISOString t))"

text \<open>
  The loop shared by \<^verbatim>\<open>getDateRange\<close> of scout.js and \<^verbatim>\<open>analyzeEventCoverage\<close> of
  api\_server.js:
  \<^verbatim>\<open>while (current <= end) { dates.push(current.toISOString().split("T")[0]);
  current.setDate(current.getDate() + 1); }\<close>.
  Nothing in the code bounds it when the host's offsets do not let the date advance, so
  \<open>None\<close> is the loop that does not end.
\<close>

partial_function (option) date_loop ::
  "js_env \<Rightarrow> int option \<Rightarrow> int option \<Rightarrow> string list \<Rightarrow> string list option" where
  "date_loop env current end_date dates =
     (if date_le current end_date
      then date_loop env (setDate_next env (the current)) end_date
             (dates @ [date_string (the current)])
      else Some dates)"

declare date_loop.simps [code]

definition getDateRange :: "js_env \<Rightarrow> string \<Rightarrow> string \<Rightarrow> string list option" where
  "getDateRange env startDate endDate = date_loop env (new_Date env startDate) (new_Date env endDate) []"

section \<open>The generation service\<close>

text \<open>
  Scout and Explorer call \<^verbatim>\<open>ai.models.generateContent\<close> with a prompt built from their
  arguments.  A request is represented by the arguments its prompt is built from.  The
  service, the clock and the configuration are the world of a run: \<open>generateContent w n r\<close> is
  what the service does with request \<open>r\<close> when \<open>n\<close> requests were made before, either a
  rejection or a response with its \<^verbatim>\<open>text\<close> (\<open>None\<close>: \<^verbatim>\<open>undefined\<close>); \<open>now_iso w k\<close> is the
  \<open>k\<close>-th reading \<^verbatim>\<open>new Date().toISOString()\<close>.
\<close>

type_synonym js_object = "(string \<times> jsval) list"

definition obj_get :: "js_object \<Rightarrow> string \<Rightarrow> jsval" where
  "obj_get ob k = (case map_of ob k of Some v \<Rightarrow> v | None \<Rightarrow> JUndefined)"

datatype request =
    SearchPrompt string string string
  | AnalysisPrompt "js_object list" string

datatype response = Threw js_error | Responded "string option"

record gemini_world =
  googleApiKey :: "string option"
  generateContent :: "nat \<Rightarrow> request \<Rightarrow> response"
  host :: js_env
  now_iso :: "nat \<Rightarrow> string"

definition getGenAI :: "string \<Rightarrow> gemini_world \<Rightarrow> js_error + unit" where
  "getGenAI who w =
     (case googleApiKey w of
        None \<Rightarrow> Inl (Error (Some (''GOOGLE_API_KEY is required for '' @ who)))
      | Some k \<Rightarrow>
          if k = [] then Inl (Error (Some (''GOOGLE_API_KEY is required for '' @ who)))
          else Inr ())"

definition message_value :: "js_error \<Rightarrow> jsval" where
  "message_value e = (case message e of None \<Rightarrow> JUndefined | Some m \<Rightarrow> JStr m)"

section \<open>scout.js\<close>















section \<open>explorer.js\<close>

definition batchSize :: nat where
  "batchSize = 5"

text \<open>\<^verbatim>\<open>xs.slice(a, b)\<close> for \<open>a \<le> b\<close>.\<close>

definition slice :: "'a list \<Rightarrow> nat \<Rightarrow> nat \<Rightarrow> 'a list" where
  "slice xs a b = take (b - a) (drop a xs)"

text \<open>\<^verbatim>\<open>for (let i = 0; i < links.length; i += CONFIG.batchSize) batches.push(links.slice(i, i + CONFIG.batchSize));\<close>\<close>

function make_batches :: "'a list \<Rightarrow> nat \<Rightarrow> 'a list list" where
  "make_batches ls i =
     (if i < length ls
      then slice ls i (i + batchSize) # make_batches ls (i + batchSize)
      else [])"
  by pat_completeness auto
termination
  by (relation "measure (\<lambda>(ls, i). length ls - i)") (auto simp: batchSize_def)

declare make_batches.simps [simp del]

text \<open>
  The object \<^verbatim>\<open>analyzeBatch\<close> returns: \<open>analyzed\<close> and \<open>batch_error\<close> are \<^verbatim>\<open>undefined\<close> where the
  source leaves them out.
\<close>

record batch_result =
  batch_success :: bool
  batch_events :: jsval
  batch_rejected :: jsval
  analyzed :: jsval
  batch_error :: jsval

text \<open>The \<^verbatim>\<open>catch\<close> of \<^verbatim>\<open>analyzeBatch\<close>: every link of the batch is rejected with the message.\<close>

definition batch_failed :: "js_object list \<Rightarrow> js_error \<Rightarrow> batch_result" where
  "batch_failed ls e =
     \<lparr>batch_success = False,
      batch_events = JArr [],
      batch_rejected = JArr (map (\<lambda>l. JObj [(''url'', obj_get l ''url''), (''reason'', message_value e)]) ls),
      analyzed = JUndefined,
      batch_error = message_value e\<rparr>"

text \<open>The \<^verbatim>\<open>try\<close> block of \<^verbatim>\<open>analyzeBatch\<close>, as the \<open>n\<close>-th request.\<close>

definition analysis_try :: "gemini_world \<Rightarrow> nat \<Rightarrow> js_object list \<Rightarrow> string \<Rightarrow> js_error + batch_result" where
  "analysis_try w n ls c =
     (case generateContent w n (AnalysisPrompt ls c) of
        Threw e \<Rightarrow> Inl e
      | Responded responseText \<Rightarrow>
          (case extractJSON3 ''Explorer'' responseText of
             Inl e \<Rightarrow> Inl e
           | Inr result \<Rightarrow>
               (case (get_prop result ''valid_events'', get_prop result ''rejected_links'',
                      get_prop result ''analyzed_links'') of
                  (Inr ve, Inr rl, Inr al) \<Rightarrow>
                    Inr \<lparr>batch_success = True,
                         batch_events = js_or ve (JArr []),
                         batch_rejected = js_or rl (JArr []),
                         analyzed = js_or al (JNum (int (length ls)) 0),
                         batch_error = JUndefined\<rparr>
                | (Inl e, _, _) \<Rightarrow> Inl e
                | (_, Inl e, _) \<Rightarrow> Inl e
                | (_, _, Inl e) \<Rightarrow> Inl e)))"

definition analyzeBatch ::
  "gemini_world \<Rightarrow> request list \<Rightarrow> js_object list \<Rightarrow> string
     \<Rightarrow> (js_error + batch_result) \<times> request list" where
  "analyzeBatch w reqs ls c =
     (case getGenAI ''Explorer'' w of
        Inl e \<Rightarrow> (Inl e, reqs)
      | Inr u \<Rightarrow>
          (Inr (case analysis_try w (length reqs) ls c of
                  Inr r \<Rightarrow> r
                | Inl e \<Rightarrow> batch_failed ls e),
           reqs @ [AnalysisPrompt ls c]))"

text \<open>The state of the loop over the batches.\<close>

record exploration =
  explorer_requests :: "request list"
  allEvents :: "jsval list"
  allRejected :: "jsval list"
  totalAnalyzed :: jsval

text \<open>
  One round of the loop.  \<^verbatim>\<open>push(...x)\<close> throws when \<open>x\<close> is not iterable, outside any
  \<^verbatim>\<open>try\<close>.
\<close>

definition explore_batch ::
  "gemini_world \<Rightarrow> string \<Rightarrow> js_object list \<Rightarrow> exploration \<Rightarrow> js_error + exploration" where
  "explore_batch w c batch st =
     (case analyzeBatch w (explorer_requests st) batch c of
        (Inl e, reqs) \<Rightarrow> Inl e
      | (Inr result, reqs) \<Rightarrow>
          if batch_success result then
            (case spread_elems (batch_events result) of
               Inl e \<Rightarrow> Inl e
             | Inr evs \<Rightarrow>
                 (case spread_elems (batch_rejected result) of
                    Inl e \<Rightarrow> Inl e
                  | Inr rej \<Rightarrow>
                      Inr \<lparr>explorer_requests = reqs,
                           allEvents = allEvents st @ evs,
                           allRejected = allRejected st @ rej,
                           totalAnalyzed = js_plus (totalAnalyzed st) (analyzed result)\<rparr>))
          else
            (case spread_elems (batch_rejected result) of
               Inl e \<Rightarrow> Inl e
             | Inr rej \<Rightarrow> Inr (st\<lparr>explorer_requests := reqs, allRejected := allRejected st @ rej\<rparr>)))"

fun explore_batches ::
  "gemini_world \<Rightarrow> string \<Rightarrow> js_object list list \<Rightarrow> exploration \<Rightarrow> js_error + exploration" where
  "explore_batches w c [] st = Inr st"
| "explore_batches w c (batch # batches) st =
     (case explore_batch w c batch st of
        Inl e \<Rightarrow> Inl e
      | Inr st' \<Rightarrow> explore_batches w c batches st')"

text \<open>\<^verbatim>\<open>`${event.name}-${event.start_time}`\<close>: a TypeError when the event is \<^verbatim>\<open>null\<close>.\<close>

definition event_key :: "jsval \<Rightarrow> js_error + string" where
  "event_key event =
     (case (get_prop event ''name'', get_prop event ''start_time'') of
        (Inr n, Inr t) \<Rightarrow> Inr (ToString n @ ''-'' @ ToString t)
      | (Inl e, _) \<Rightarrow> Inl e
      | (_, Inl e) \<Rightarrow> Inl e)"

text \<open>
  \<^verbatim>\<open>for (const event of allEvents) { const key = ...; if (!seen.has(key)) { seen.add(key);
  uniqueEvents.push(event); } }\<close>
\<close>

fun dedupe_events :: "jsval list \<Rightarrow> string list \<Rightarrow> jsval list \<Rightarrow> js_error + jsval list" where
  "dedupe_events [] seen uniqueEvents = Inr uniqueEvents"
| "dedupe_events (event # rest) seen uniqueEvents =
     (case event_key event of
        Inl e \<Rightarrow> Inl e
      | Inr key \<Rightarrow>
          if key \<notin> set seen then dedupe_events rest (seen @ [key]) (uniqueEvents @ [event])
          else dedupe_events rest seen uniqueEvents)"

text \<open>
  \<^verbatim>\<open>new Date(v).getTime()\<close> for a value \<open>v\<close>: a string is parsed, a container is parsed as its
  string, \<^verbatim>\<open>undefined\<close> is invalid, anything else is the number it converts to.
\<close>

definition getTime :: "js_env \<Rightarrow> jsval \<Rightarrow> int option" where
  "getTime env v =
     (case v of
        JUndefined \<Rightarrow> None
      | JNull \<Rightarrow> Some 0
      | JBool b \<Rightarrow> Some (if b then 1 else 0)
      | JNum m e \<Rightarrow> TimeClip (if m < 0 then - (\<bar>m\<bar> div 10 ^ e) else m div 10 ^ e)
      | JStr s \<Rightarrow> new_Date env s
      | JArr xs \<Rightarrow> new_Date env (ToString v)
      | JObj kvs \<Rightarrow> new_Date env (ToString v))"

text \<open>
  The comparator \<^verbatim>\<open>(a, b) => timeA - timeB\<close>, as \<^verbatim>\<open>sort\<close> reads it: \<^verbatim>\<open>NaN\<close> counts as 0.  The
  events compared went through \<open>dedupe_events\<close>, so reading their \<^verbatim>\<open>start_time\<close> cannot throw.
\<close>

definition start_time_of :: "jsval \<Rightarrow> jsval" where
  "start_time_of ev = (case get_prop ev ''start_time'' of Inr t \<Rightarrow> t | Inl e \<Rightarrow> JUndefined)"

definition compare_start :: "js_env \<Rightarrow> jsval \<Rightarrow> jsval \<Rightarrow> int" where
  "compare_start env a b =
     (case (getTime env (start_time_of a), getTime env (start_time_of b)) of
        (Some timeA, Some timeB) \<Rightarrow> timeA - timeB
      | _ \<Rightarrow> 0)"

text \<open>
  \<^verbatim>\<open>Array.prototype.sort\<close> with a comparator is a stable sort; it is modelled by insertion
  from the left.  Where the comparator is not a consistent order (an invalid date among
  valid ones) ECMA-262 leaves the result to the implementation, and the model is one
  such implementation.
\<close>

fun insert_sorted :: "('a \<Rightarrow> 'a \<Rightarrow> int) \<Rightarrow> 'a \<Rightarrow> 'a list \<Rightarrow> 'a list" where
  "insert_sorted cmp x [] = [x]"
| "insert_sorted cmp x (y # ys) = (if cmp y x > 0 then x # y # ys else y # insert_sorted cmp x ys)"

definition js_sort :: "('a \<Rightarrow> 'a \<Rightarrow> int) \<Rightarrow> 'a list \<Rightarrow> 'a list" where
  "js_sort cmp xs = foldl (\<lambda>acc x. insert_sorted cmp x acc) [] xs"

text \<open>What \<^verbatim>\<open>exploreLinks\<close> returns (without the constant \<^verbatim>\<open>success: true\<close>), and the requests made.\<close>

record explorer_results =
  requests_made :: "request list"
  events :: "jsval list"
  explorer_totalAnalyzed :: jsval
  totalEvents :: nat
  rejected :: "jsval list"

definition exploreLinks :: "gemini_world \<Rightarrow> js_object list \<Rightarrow> string \<Rightarrow> js_error + explorer_results" where
  "exploreLinks w ls c =
     (if length ls = 0 then
        Inr \<lparr>requests_made = [], events = [], explorer_totalAnalyzed = JNum 0 0, totalEvents = 0,
             rejected = []\<rparr>
      else
        (case explore_batches w c (make_batches ls 0)
                \<lparr>explorer_requests = [], allEvents = [], allRejected = [], totalAnalyzed = JNum 0 0\<rparr> of
           Inl e \<Rightarrow> Inl e
         | Inr st \<Rightarrow>
             (case dedupe_events (allEvents st) [] [] of
                Inl e \<Rightarrow> Inl e
              | Inr uniqueEvents \<Rightarrow>
                  Inr \<lparr>requests_made = explorer_requests st,
                       events = js_sort (compare_start (host w)) uniqueEvents,
                       explorer_totalAnalyzed = totalAnalyzed st,
                       totalEvents = length uniqueEvents,
                       rejected = allRejected st\<rparr>)))"

section \<open>api\_server.js: coverage and the final itinerary\<close>

text \<open>
  \<^verbatim>\<open>parseInt(s)\<close>: leading white space, a sign, the prefix \<^verbatim>\<open>0x\<close> of a hexadecimal number,
  then the longest run of digits; \<open>None\<close> is \<^verbatim>\<open>NaN\<close>.
\<close>

definition parseInt :: "string \<Rightarrow> int option" where
  "parseInt s =
     (let s1 = dropWhile is_space s;
          neg = startsWith s1 ''-'';
          s2 = (if startsWith s1 ''-'' \<or> startsWith s1 ''+'' then tl s1 else s1);
          hex = (startsWith s2 ''0x'' \<or> startsWith s2 ''0X'');
          ds = (if hex then takeWhile (\<lambda>c. hex_val c \<noteq> None) (drop 2 s2) else takeWhile is_digit s2);
          n = (if hex then foldl (\<lambda>a c. 16 * a + int (the (hex_val c))) 0 ds
               else int (digits_to_nat ds))
      in if ds = [] then None else Some (if neg then - n else n))"

text \<open>
  The names \<^verbatim>\<open>grouped[eventDate]\<close> finds on \<^verbatim>\<open>Object.prototype\<close> when \<open>grouped\<close>, a plain object,
  has no such key of its own: all of them functions or objects, hence truthy, and none
  with a \<^verbatim>\<open>push\<close>.
\<close>

definition Object_prototype_keys :: "string list" where
  "Object_prototype_keys =
     [''constructor'', ''__proto__'', ''hasOwnProperty'', ''isPrototypeOf'', ''propertyIsEnumerable'',
      ''toLocaleString'', ''toString'', ''valueOf'', ''__defineGetter__'', ''__defineSetter__'',
      ''__lookupGetter__'', ''__lookupSetter__'']"

text \<open>\<^verbatim>\<open>grouped[k] = v\<close> on the list of the object's keys, in the order of their creation.\<close>

fun assign :: "string \<Rightarrow> 'a \<Rightarrow> (string \<times> 'a) list \<Rightarrow> (string \<times> 'a) list" where
  "assign k v [] = [(k, v)]"
| "assign k v (p # ps) = (if fst p = k then (k, v) # ps else p # assign k v ps)"

definition init_grouped :: "string list \<Rightarrow> (string \<times> jsval list) list" where
  "init_grouped dates = foldl (\<lambda>g dateStr. assign dateStr [] g) [] dates"

text \<open>
  The body of \<^verbatim>\<open>events.forEach\<close>: an event without a truthy \<^verbatim>\<open>start_time\<close> is skipped; a
  truthy \<^verbatim>\<open>start_time\<close> that is no string has no \<^verbatim>\<open>split\<close>.
\<close>

definition group_event ::
  "jsval \<Rightarrow> (string \<times> jsval list) list \<Rightarrow> js_error + (string \<times> jsval list) list" where
  "group_event event grouped =
     (case get_prop event ''start_time'' of
        Inl e \<Rightarrow> Inl e
      | Inr st \<Rightarrow>
          if \<not> truthy st then Inr grouped
          else
            (case st of
               JStr s \<Rightarrow>
                 (let eventDate = hd (split_on CHR ''T'' s) in
                  case map_of grouped eventDate of
                    Some dayEvents \<Rightarrow> Inr (assign eventDate (dayEvents @ [event]) grouped)
                  | None \<Rightarrow>
                      if eventDate \<in> set Object_prototype_keys
                      then Inl (Error (Some ''grouped[eventDate].push is not a function''))
                      else Inr grouped)
             | _ \<Rightarrow> Inl (Error (Some ''event.start_time.split is not a function''))))"

fun group_events ::
  "jsval list \<Rightarrow> (string \<times> jsval list) list \<Rightarrow> js_error + (string \<times> jsval list) list" where
  "group_events [] grouped = Inr grouped"
| "group_events (event # rest) grouped =
     (case group_event event grouped of
        Inl e \<Rightarrow> Inl e
      | Inr g \<Rightarrow> group_events rest g)"

text \<open>
  \<^verbatim>\<open>parseInt(e.start_time.split("T")[1].split(":")[0])\<close> for an event of a bucket, whose
  \<^verbatim>\<open>start_time\<close> is a string: without a \<^verbatim>\<open>T\<close> there is no second segment to split.
\<close>

definition start_hour :: "jsval \<Rightarrow> js_error + int option" where
  "start_hour e =
     (case start_time_of e of
        JStr s \<Rightarrow>
          (case index_opt (split_on CHR ''T'' s) 1 of
             None \<Rightarrow> Inl (TypeError_reading ''undefined'' ''split'')
           | Some tm \<Rightarrow> Inr (parseInt (hd (split_on CHR '':'' tm))))
      | _ \<Rightarrow> Inl (Error (Some ''e.start_time.split is not a function'')))"

text \<open>\<^verbatim>\<open>xs.some(p)\<close>: stops at the first element that satisfies \<open>p\<close>, or at the first error.\<close>

fun js_some :: "('a \<Rightarrow> js_error + bool) \<Rightarrow> 'a list \<Rightarrow> js_error + bool" where
  "js_some p [] = Inr False"
| "js_some p (x # xs) =
     (case p x of
        Inl e \<Rightarrow> Inl e
      | Inr b \<Rightarrow> if b then Inr True else js_some p xs)"

definition hour_in :: "(int \<Rightarrow> bool) \<Rightarrow> jsval \<Rightarrow> js_error + bool" where
  "hour_in band e =
     (case start_hour e of
        Inl err \<Rightarrow> Inl err
      | Inr None \<Rightarrow> Inr False
      | Inr (Some hour) \<Rightarrow> Inr (band hour))"

record coverage_entry =
  count :: nat
  day_events :: "jsval list"
  hasMorning :: bool
  hasAfternoon :: bool
  hasEvening :: bool

definition day_coverage :: "jsval list \<Rightarrow> js_error + coverage_entry" where
  "day_coverage dayEvents =
     (case js_some (hour_in (\<lambda>hour. hour \<ge> 8 \<and> hour < 12)) dayEvents of
        Inl e \<Rightarrow> Inl e
      | Inr m \<Rightarrow>
     (case js_some (hour_in (\<lambda>hour. hour \<ge> 12 \<and> hour < 17)) dayEvents of
        Inl e \<Rightarrow> Inl e
      | Inr a \<Rightarrow>
     (case js_some (hour_in (\<lambda>hour. hour \<ge> 17)) dayEvents of
        Inl e \<Rightarrow> Inl e
      | Inr ev \<Rightarrow>
          Inr \<lparr>count = length dayEvents, day_events = dayEvents,
               hasMorning = m, hasAfternoon = a, hasEvening = ev\<rparr>)))"

fun coverage_of ::
  "(string \<times> jsval list) list \<Rightarrow> js_error + (string \<times> coverage_entry) list" where
  "coverage_of [] = Inr []"
| "coverage_of ((d, dayEvents) # rest) =
     (case day_coverage dayEvents of
        Inl e \<Rightarrow> Inl e
      | Inr entry \<Rightarrow>
          (case coverage_of rest of
             Inl e \<Rightarrow> Inl e
           | Inr cov \<Rightarrow> Inr ((d, entry) # cov)))"

definition analyzeEventCoverage ::
  "js_env \<Rightarrow> jsval list \<Rightarrow> string \<Rightarrow> string \<Rightarrow> (js_error + (string \<times> coverage_entry) list) option" where
  "analyzeEventCoverage env evs startDate endDate =
     (case date_loop env (new_Date env startDate) (new_Date env endDate) [] of
        None \<Rightarrow> None
      | Some dates \<Rightarrow>
          Some (case group_events evs (init_grouped dates) of
                  Inl e \<Rightarrow> Inl e
                | Inr grouped \<Rightarrow> coverage_of grouped))"

text \<open>
  \<^verbatim>\<open>Logger.logFinalItinerary\<close>: the \<^verbatim>\<open>itinerary\<close> it writes to the itinerary file, each event
  copied without \<^verbatim>\<open>interest_matched\<close> and \<^verbatim>\<open>target_date\<close>.  \<^verbatim>\<open>null\<close> cannot be destructured.
\<close>

definition clean_event :: "jsval \<Rightarrow> js_error + jsval" where
  "clean_event event =
     (if event = JNull \<or> event = JUndefined
      then Inl (Error (Some ''Cannot destructure property of null or undefined''))
      else Inr (JObj (filter (\<lambda>p. fst p \<noteq> ''interest_matched'' \<and> fst p \<noteq> ''target_date'')
                        (spread_props event))))"

fun map_events :: "(jsval \<Rightarrow> js_error + jsval) \<Rightarrow> jsval list \<Rightarrow> js_error + jsval list" where
  "map_events f [] = Inr []"
| "map_events f (x # xs) =
     (case f x of
        Inl e \<Rightarrow> Inl e
      | Inr y \<Rightarrow> (case map_events f xs of Inl e \<Rightarrow> Inl e | Inr ys \<Rightarrow> Inr (y # ys)))"

definition logFinalItinerary :: "jsval list \<Rightarrow> js_error + jsval list" where
  "logFinalItinerary evs = map_events clean_event evs"

section \<open>api\_server.js: the resilient tool invoker\<close>

datatype 'r outcome = Resolved 'r | Rejected js_error

record tool =
  name :: string
  handle :: nat

text \<open>
  The outside world of the invoker.  \<open>invoke_outcome n t\<close> is what \<open>t.invoke(params, options)\<close>
  does when it is the \<open>n\<close>-th tool invocation of the run (\<open>None\<close> for the handle is
  \<open>undefined\<close>, whose \<open>invoke\<close> cannot be read: a TypeError).  \<open>getTools_outcome k\<close> is what
  the \<open>k\<close>-th call of \<open>mcpClient.getTools()\<close> does.
\<close>

record 'r mcp_world =
  invoke_outcome :: "nat \<Rightarrow> tool \<Rightarrow> 'r outcome"
  getTools_outcome :: "nat \<Rightarrow> tool list outcome"

text \<open>The module-level variables, and counters of the calls made so far.\<close>

record mcp_state =
  searchTool :: "tool option"
  scrapeTool :: "tool option"
  invocations :: nat
  initializations :: nat

definition find_tool :: "string \<Rightarrow> tool list \<Rightarrow> tool option" where
  "find_tool n ts = List.find (\<lambda>t. name t = n) ts"

definition initializeMCP :: "'r mcp_world \<Rightarrow> mcp_state \<Rightarrow> (js_error + unit) \<times> mcp_state" where
  "initializeMCP w st =
     (let st1 = st\<lparr>initializations := Suc (initializations st)\<rparr> in
      case getTools_outcome w (initializations st) of
        Rejected e \<Rightarrow> (Inl e, st1)
      | Resolved allTools \<Rightarrow>
          (let st2 = st1\<lparr>searchTool := find_tool ''search_engine'' allTools,
                         scrapeTool := find_tool ''scrape_as_markdown'' allTools\<rparr> in
           if searchTool st2 = None \<or> scrapeTool st2 = None
           then (Inl (Error (Some ''Required tools not found'')), st2)
           else (Inr (), st2)))"

definition tool_invoke :: "'r mcp_world \<Rightarrow> tool option \<Rightarrow> mcp_state \<Rightarrow> 'r outcome \<times> mcp_state" where
  "tool_invoke w t st =
     (case t of
        None \<Rightarrow> (Rejected (Error (Some ''Cannot read properties of undefined (reading invoke)'')), st)
      | Some th \<Rightarrow> (invoke_outcome w (invocations st) th, st\<lparr>invocations := Suc (invocations st)\<rparr>))"

definition isTransportError :: "js_error \<Rightarrow> bool" where
  "isTransportError e =
     (case message e of
        None \<Rightarrow> False
      | Some m \<Rightarrow> m \<noteq> [] \<and>
          (str_includes m ''No active transport'' \<or>
           str_includes m ''Connection closed'' \<or>
           str_includes m ''HTTP 400''))"

function safeToolInvoke ::
  "'r mcp_world \<Rightarrow> tool option \<Rightarrow> nat \<Rightarrow> mcp_state \<Rightarrow> (js_error + 'r) \<times> mcp_state" where
  "safeToolInvoke w t attempt st =
     (case tool_invoke w t st of
        (Resolved r, st1) \<Rightarrow> (Inr r, st1)
      | (Rejected e, st1) \<Rightarrow>
          if attempt > 1 then (Inl e, st1)
          else if isTransportError e then
            (case initializeMCP w st1 of
               (Inl reconnectError, st2) \<Rightarrow> (Inl reconnectError, st2)
             | (Inr u, st2) \<Rightarrow>
                 (let newTool = (case t of
                                   Some th \<Rightarrow> if name th = ''search_engine'' then searchTool st2 else scrapeTool st2
                                 | None \<Rightarrow> None)
                  in safeToolInvoke w newTool (attempt + 1) st2))
          else (Inl e, st1))"
  by pat_completeness auto
termination
  by (relation "measure (\<lambda>(w, t, attempt, st). 2 - attempt)") auto

declare safeToolInvoke.simps [simp del]

section \<open>Observations on an exploration\<close>

text \<open>
  The object \<^verbatim>\<open>analyzeBatch\<close> returns for a batch sent as the \<open>n\<close>-th request, when the key is
  configured: the object of the \<^verbatim>\<open>try\<close> block, or the one of the \<^verbatim>\<open>catch\<close>.
\<close>

definition batch_outcome :: "gemini_world \<Rightarrow> string \<Rightarrow> nat \<Rightarrow> js_object list \<Rightarrow> batch_result" where
  "batch_outcome w c n b =
     (case analysis_try w n b c of
        Inr r \<Rightarrow> r
      | Inl e \<Rightarrow> batch_failed b e)"

text \<open>
  What the batch adds to \<^verbatim>\<open>allEvents\<close> and to \<^verbatim>\<open>allRejected\<close> in the loop of \<^verbatim>\<open>exploreLinks\<close>.
\<close>

definition events_of_batch :: "gemini_world \<Rightarrow> string \<Rightarrow> nat \<Rightarrow> js_object list \<Rightarrow> jsval list" where
  "events_of_batch w c n b =
     (if batch_success (batch_outcome w c n b)
      then (case spread_elems (batch_events (batch_outcome w c n b)) of Inr xs \<Rightarrow> xs | Inl e \<Rightarrow> [])
      else [])"

definition rejected_of_batch :: "gemini_world \<Rightarrow> string \<Rightarrow> nat \<Rightarrow> js_object list \<Rightarrow> jsval list" where
  "rejected_of_batch w c n b =
     (case spread_elems (batch_rejected (batch_outcome w c n b)) of Inr xs \<Rightarrow> xs | Inl e \<Rightarrow> [])"


section \<open>Observations on a sweep\<close>



section \<open>Scenarios\<close>

text \<open>Concrete worlds and inputs, at which the theorems below are instantiated.\<close>

text \<open>
  The texts of claim C3: \<^verbatim>\<open>prefix text ```json\n{"a":1}\n``` suffix\<close> (with its two line
  feeds) and \<^verbatim>\<open>noise {"a":1} noise\<close>.
\<close>

definition fenced_text :: string where
  "fenced_text =
     ''prefix text ```json'' @ [CHR 0x0A] @ ''{'' @ [CHR 0x22] @ ''a'' @ [CHR 0x22] @ '':1}''
       @ [CHR 0x0A] @ ''``` suffix''"

definition noisy_text :: string where
  "noisy_text = ''noise {'' @ [CHR 0x22] @ ''a'' @ [CHR 0x22] @ '':1} noise''"

definition flaky_world :: "nat mcp_world" where
  "flaky_world =
     \<lparr>invoke_outcome = (\<lambda>n t. if n = 0 then Rejected (Error (Some ''MCP error: Connection closed''))
                                else Resolved (handle t)),
      getTools_outcome = (\<lambda>k. Resolved [\<lparr>name = ''search_engine'', handle = 7\<rparr>,
                                         \<lparr>name = ''scrape_as_markdown'', handle = 8\<rparr>])\<rparr>"

definition dead_world :: "nat mcp_world" where
  "dead_world =
     \<lparr>invoke_outcome = (\<lambda>n t. Rejected (Error (Some (if n = 0 then ''HTTP 400'' else ''No active transport'')))),
      getTools_outcome = (\<lambda>k. Resolved [\<lparr>name = ''search_engine'', handle = 7\<rparr>,
                                         \<lparr>name = ''scrape_as_markdown'', handle = 8\<rparr>])\<rparr>"

definition cold_state :: mcp_state where
  "cold_state = \<lparr>searchTool = Some \<lparr>name = ''search_engine'', handle = 1\<rparr>,
                 scrapeTool = Some \<lparr>name = ''scrape_as_markdown'', handle = 2\<rparr>,
                 invocations = 0, initializations = 0\<rparr>"

text \<open>A host on UTC, with no other date format than the calendar date.\<close>

definition utc_host :: js_env where
  "utc_host = \<lparr>LocalTZA = (\<lambda>t isUTC. 0), Date_parse_other = (\<lambda>s. None)\<rparr>"

definition event_at :: "string \<Rightarrow> string \<Rightarrow> jsval" where
  "event_at n t = JObj [(''name'', JStr n), (''start_time'', JStr t)]"


text \<open>
  Worlds of the generation service.  In the silent one every request is rejected.  In
  the mixed one the first request is rejected, the second is answered with prose, and
  every later one with three links, two of which have the same \<^verbatim>\<open>url\<close>.
\<close>

definition quoted :: "string \<Rightarrow> string" where
  "quoted s = CHR 0x22 # s @ [CHR 0x22]"






text \<open>
  A host on New York time around the end of daylight saving time, on 1 November 2026 at
  06:00 UTC: four hours behind UTC before, five hours after.
\<close>

definition new_york_host :: js_env where
  "new_york_host =
     \<lparr>LocalTZA = (\<lambda>t isUTC.
         if isUTC then (if t < 1793512800000 then - 14400000 else - 18000000)
         else (if t < 1793498400000 then - 14400000 else - 18000000)),
      Date_parse_other = (\<lambda>s. None)\<rparr>"

text \<open>A host on UTC that also reads the date-times of the scenarios below.\<close>

definition clock_host :: js_env where
  "clock_host =
     \<lparr>LocalTZA = (\<lambda>t isUTC. 0),
      Date_parse_other = (\<lambda>s. if s = ''2026-01-03T18:00:00'' then Some 1767463200000
                                 else if s = ''2026-01-03T20:00:00'' then Some 1767470400000
                                 else None)\<rparr>"

definition link_to :: "string \<Rightarrow> js_object" where
  "link_to u = [(''url'', JStr u), (''title'', JStr ''Listing'')]"





text \<open>
  An answer with two events of different names and start times, whose names and start
  times joined by a hyphen are the same text.
\<close>

definition fest_answer :: string where
  "fest_answer =
     ''{'' @ quoted ''valid_events'' @ '':[''
       @ ''{'' @ quoted ''name'' @ '':'' @ quoted ''Winter Jazz Fest'' @ '',''
       @ quoted ''start_time'' @ '':'' @ quoted ''2026-01-03T20:00:00'' @ ''},''
       @ ''{'' @ quoted ''name'' @ '':'' @ quoted ''Winter Jazz Fest-2026'' @ '',''
       @ quoted ''start_time'' @ '':'' @ quoted ''01-03T20:00:00'' @ ''}]}''"

definition fest_world :: gemini_world where
  "fest_world =
     \<lparr>googleApiKey = Some ''key'',
      generateContent = (\<lambda>n r. Responded (Some fest_answer)),
      host = clock_host,
      now_iso = (\<lambda>k. ''2026-01-01T12:00:00.000Z'')\<rparr>"

text \<open>An answer whose event carries the two provenance fields, as the prompt asks.\<close>

definition meetup_event :: jsval where
  "meetup_event =
     JObj [(''name'', JStr ''Tech Meetup''), (''start_time'', JStr ''2026-01-03T18:00:00''),
           (''interest_matched'', JStr ''Technology''), (''target_date'', JStr ''2026-01-03'')]"

definition meetup_answer :: string where
  "meetup_answer =
     ''{'' @ quoted ''valid_events'' @ '':[{'' @ quoted ''name'' @ '':'' @ quoted ''Tech Meetup'' @ '',''
       @ quoted ''start_time'' @ '':'' @ quoted ''2026-01-03T18:00:00'' @ '',''
       @ quoted ''interest_matched'' @ '':'' @ quoted ''Technology'' @ '',''
       @ quoted ''target_date'' @ '':'' @ quoted ''2026-01-03'' @ ''}]}''"

definition meetup_world :: gemini_world where
  "meetup_world =
     \<lparr>googleApiKey = Some ''key'',
      generateContent = (\<lambda>n r. Responded (Some meetup_answer)),
      host = clock_host,
      now_iso = (\<lambda>k. ''2026-01-01T12:00:00.000Z'')\<rparr>"

section \<open>Evaluation\<close>

text \<open>The equations that evaluate the model on concrete inputs.\<close>

lemmas json_eval = JSON_parse_def lex_token_def is_digit_def lex_number_def lex_int_part_def
  lex_fraction_def lex_exponent_def digits_to_nat_def digit_val_def Let_def mk_num_def
  simple_escape_def hex4_def hex_val_def utf8_def byte_char_def

lemmas rx_eval = is_space_def trim_def to_lower_def closes_here_def group_after_open_def match_span_def
  from_json_fence_def from_any_fence_def from_object_span_def from_array_span_def

lemmas date_eval = getDateRange_def date_string_def new_Date_def parse_date_only_def date_le_def toISOString_def iso_year_def
  setDate_next_def LocalTime_def UTC_def TimeClip_def msPerDay_def days_from_civil_def days_in_month_def
  YearFromDay_def MonthFromDay_def DateFromDay_def day_of_year_def year_of_era_def day_of_era_def
  digits_to_nat_def digit_val_def is_digit_def pad_zeros_def show_nat.simps digit_char_def

lemmas coverage_eval = analyzeEventCoverage_def init_grouped_def group_event_def get_prop_def truthy_def
  start_hour_def start_time_of_def parseInt_def hour_in_def day_coverage_def Object_prototype_keys_def
  TypeError_reading_def is_space_def


lemmas explorer_eval = analysis_try_def getGenAI_def get_prop_def js_or_def truthy_def
  spread_elems_def message_value_def batch_failed_def obj_get_def event_key_def
  js_sort_def compare_start_def start_time_of_def getTime_def new_Date_def parse_date_only_def
  TimeClip_def is_digit_def

lemmas explorer_run = exploreLinks_def explore_batch_def analyzeBatch_def batchSize_def slice_def
  js_plus_def is_stringy_def ToNumber_def mk_num_def

section \<open>Theorems\<close>

subsection \<open>planner.js: the JSON extractor\<close>

lemma extractJSON_fenced: "extractJSON fenced_text = Inr (JObj [(''a'', JNum 1 0)])"
  by (simp add: extractJSON_def fenced_text_def json_eval rx_eval)

lemma extractJSON_noisy: "extractJSON noisy_text = Inr (JObj [(''a'', JNum 1 0)])"
  by (simp add: extractJSON_def noisy_text_def json_eval rx_eval)

lemma extractJSON_bare_array: "extractJSON ''[1,2,3]'' = Inr (JArr [JNum 1 0, JNum 2 0, JNum 3 0])"
  by (simp add: extractJSON_def json_eval rx_eval)

lemma extractJSON_embedded_array:
  "extractJSON ''noise [1,2,3] noise'' = Inr (JObj [(''itinerary'', JArr [JNum 1 0, JNum 2 0, JNum 3 0])])"
  by (simp add: extractJSON_def json_eval rx_eval)

lemma extractJSON_garbage:
  "extractJSON ''unparseable garbage'' =
     Inl (Error (Some ''Could not extract valid JSON from response. First 200 chars: unparseable garbage''))"
  by (simp add: extractJSON_def json_eval rx_eval)

lemma extractJSON_fails_iff:
  "isl (extractJSON t) =
     (JSON_parse t = None \<and> from_json_fence t = None \<and> from_any_fence t = None
      \<and> from_object_span t = None \<and> from_array_span t = None)"
  by (auto simp: extractJSON_def split: option.splits)

text \<open>
  Claim C3, as stated, fails at the text \<^verbatim>\<open>[1,2,3]\<close>: the first strategy, the direct
  \<^verbatim>\<open>JSON.parse\<close>, succeeds on it, and the extractor returns the array itself, not an object
  with the key \<^verbatim>\<open>itinerary\<close>.
\<close>

theorem extractJSON_bare_array_counterexample:
  "extractJSON ''[1,2,3]'' \<noteq> Inr (JObj [(''itinerary'', JArr [JNum 1 0, JNum 2 0, JNum 3 0])])"
  by (simp add: extractJSON_bare_array)

text \<open>
  Claim C3, amended.  Given the fenced text the extractor returns the object \<^verbatim>\<open>{a:1}\<close>, and
  so it does given the text with noise around the object.  Given \<^verbatim>\<open>[1,2,3]\<close> it returns
  the array \<^verbatim>\<open>[1,2,3]\<close>; the array is wrapped as \<^verbatim>\<open>{itinerary:[1,2,3]}\<close> when only the last
  fallback recovers it, as for \<^verbatim>\<open>noise [1,2,3] noise\<close>.  The extractor throws its error
  exactly when the direct parse and the four fallbacks all recover nothing, as for
  \<^verbatim>\<open>unparseable garbage\<close>.
\<close>

theorem extractJSON_examples:
  "extractJSON fenced_text = Inr (JObj [(''a'', JNum 1 0)]) \<and>
   extractJSON noisy_text = Inr (JObj [(''a'', JNum 1 0)]) \<and>
   extractJSON ''[1,2,3]'' = Inr (JArr [JNum 1 0, JNum 2 0, JNum 3 0]) \<and>
   extractJSON ''noise [1,2,3] noise'' = Inr (JObj [(''itinerary'', JArr [JNum 1 0, JNum 2 0, JNum 3 0])]) \<and>
   isl (extractJSON ''unparseable garbage'') \<and>
   isl (extractJSON t) =
     (JSON_parse t = None \<and> from_json_fence t = None \<and> from_any_fence t = None
      \<and> from_object_span t = None \<and> from_array_span t = None)"
  using extractJSON_fenced extractJSON_noisy extractJSON_bare_array extractJSON_embedded_array
    extractJSON_garbage extractJSON_fails_iff[of t]
  by simp

subsection \<open>api\_server.js: the resilient tool invoker\<close>

lemma initializeMCP_ok:
  "initializeMCP w st = (Inr u, st2) \<Longrightarrow>
     searchTool st2 \<noteq> None \<and> scrapeTool st2 \<noteq> None"
  by (auto simp: initializeMCP_def Let_def split: outcome.splits if_splits)

lemma initializeMCP_counts:
  "invocations (snd (initializeMCP w st)) = invocations st \<and>
   initializations (snd (initializeMCP w st)) = Suc (initializations st)"
  by (auto simp: initializeMCP_def Let_def split: outcome.splits if_splits)

lemma safeToolInvoke_last_attempt:
  "1 < a \<Longrightarrow>
   safeToolInvoke w (Some nt) a st =
     (case invoke_outcome w (invocations st) nt of Resolved r \<Rightarrow> Inr r | Rejected e \<Rightarrow> Inl e,
      st\<lparr>invocations := Suc (invocations st)\<rparr>)"
  by (subst safeToolInvoke.simps) (simp add: tool_invoke_def split: outcome.splits)

text \<open>
  Claim C4.  A call of \<open>safeToolInvoke\<close> (with the default \<open>attempt = 1\<close>) invokes the tool at
  most twice and re-initializes the client at most once.  A first result is returned at
  once.  A first failure that is no transport error propagates after that single
  invocation.  On a transport error the client is re-initialized: an error of the
  re-initialization propagates with no second invocation; otherwise the tool handle is
  rebound by name to the fresh \<open>searchTool\<close> or \<open>scrapeTool\<close> and invoked exactly once more,
  and the outcome of that second invocation, result or error, is the outcome of the call.
\<close>

theorem safeToolInvoke_retries_at_most_once:
  "let run = safeToolInvoke w (Some th) 1 st;
       first = invoke_outcome w (invocations st) th;
       st1 = st\<lparr>invocations := Suc (invocations st)\<rparr>;
       reinit = initializeMCP w st1;
       newTool = (if name th = ''search_engine'' then searchTool (snd reinit) else scrapeTool (snd reinit))
   in
     invocations (snd run) \<le> invocations st + 2 \<and>
     initializations (snd run) \<le> initializations st + 1 \<and>
     (\<forall>r. first = Resolved r \<longrightarrow> run = (Inr r, st1)) \<and>
     (\<forall>e. first = Rejected e \<and> \<not> isTransportError e \<longrightarrow> run = (Inl e, st1)) \<and>
     (\<forall>e re. first = Rejected e \<and> isTransportError e \<and> fst reinit = Inl re \<longrightarrow>
        run = (Inl re, snd reinit) \<and> invocations (snd run) = invocations st + 1) \<and>
     (\<forall>e. first = Rejected e \<and> isTransportError e \<and> fst reinit = Inr () \<longrightarrow>
        (\<exists>nt. newTool = Some nt \<and>
           invocations (snd run) = invocations st + 2 \<and>
           initializations (snd run) = initializations st + 1 \<and>
           fst run = (case invoke_outcome w (Suc (invocations st)) nt of
                        Resolved r \<Rightarrow> Inr r | Rejected e2 \<Rightarrow> Inl e2)))"
proof -
  define st1 where "st1 = st\<lparr>invocations := Suc (invocations st)\<rparr>"
  define reinit where "reinit = initializeMCP w st1"
  define newTool where
    "newTool = (if name th = ''search_engine'' then searchTool (snd reinit) else scrapeTool (snd reinit))"
  define run where "run = safeToolInvoke w (Some th) 1 st"
  note cnt = initializeMCP_counts[of w st1, folded reinit_def]
  have inv1: "invocations st1 = Suc (invocations st)" "initializations st1 = initializations st"
    by (simp_all add: st1_def)
  have A: "run = (Inr r, st1)" if "invoke_outcome w (invocations st) th = Resolved r" for r
    using that unfolding run_def by (subst safeToolInvoke.simps) (simp add: tool_invoke_def st1_def)
  have B: "run = (Inl e, st1)"
    if "invoke_outcome w (invocations st) th = Rejected e" "\<not> isTransportError e" for e
    using that unfolding run_def by (subst safeToolInvoke.simps) (simp add: tool_invoke_def st1_def)
  have C: "run = (Inl re, snd reinit)"
    if "invoke_outcome w (invocations st) th = Rejected e" "isTransportError e" "fst reinit = Inl re"
    for e re
    using that unfolding run_def
    by (subst safeToolInvoke.simps, cases reinit) (simp add: tool_invoke_def st1_def reinit_def)
  have D: "\<exists>nt. newTool = Some nt \<and>
      run = (case invoke_outcome w (Suc (invocations st)) nt of
               Resolved r \<Rightarrow> Inr r | Rejected e2 \<Rightarrow> Inl e2,
             (snd reinit)\<lparr>invocations := Suc (Suc (invocations st))\<rparr>)"
    if h: "invoke_outcome w (invocations st) th = Rejected e" "isTransportError e" "fst reinit = Inr ()"
    for e
  proof -
    obtain st2 where r: "reinit = (Inr (), st2)" using h(3) by (cases reinit) auto
    from initializeMCP_ok[of w st1 "()" st2] r
    have "searchTool st2 \<noteq> None" "scrapeTool st2 \<noteq> None" by (simp_all add: reinit_def)
    then obtain nt where nt: "newTool = Some nt" by (cases "name th = ''search_engine''") (auto simp: newTool_def r)
    have i2: "invocations st2 = Suc (invocations st)" using cnt r inv1 by simp
    have "run = safeToolInvoke w newTool 2 st2"
      using h(1,2) r unfolding run_def
      by (subst safeToolInvoke.simps)
         (simp add: tool_invoke_def st1_def[symmetric] reinit_def[symmetric] newTool_def numeral_2_eq_2)
    then show ?thesis using nt i2 r by (simp add: safeToolInvoke_last_attempt)
  qed
  have E: "invocations (snd run) = invocations st + 2 \<and> initializations (snd run) = initializations st + 1 \<and>
      (\<exists>nt. newTool = Some nt \<and> fst run = (case invoke_outcome w (Suc (invocations st)) nt of
               Resolved r \<Rightarrow> Inr r | Rejected e2 \<Rightarrow> Inl e2))"
    if h: "invoke_outcome w (invocations st) th = Rejected e" "isTransportError e" "fst reinit = Inr ()"
    for e
    using D[OF h] cnt inv1 by auto
  show ?thesis
    unfolding Let_def run_def[symmetric] st1_def[symmetric] reinit_def[symmetric] newTool_def[symmetric]
    apply (cases "invoke_outcome w (invocations st) th")
    subgoal for r using A[of r] inv1 by simp
    subgoal for e
      apply (cases "isTransportError e")
      subgoal
        apply (cases "fst reinit")
        subgoal for re using C[of e re] cnt inv1 by simp
        subgoal for u using E[of e] by simp
        done
      subgoal using B[of e] inv1 by simp
      done
    done
qed

theorem safeToolInvoke_retries_at_most_once_witness:
  "fst (safeToolInvoke flaky_world (Some \<lparr>name = ''search_engine'', handle = 1\<rparr>) 1 cold_state) = Inr 7 \<and>
   invocations (snd (safeToolInvoke flaky_world (Some \<lparr>name = ''search_engine'', handle = 1\<rparr>) 1 cold_state)) = 2 \<and>
   initializations (snd (safeToolInvoke flaky_world (Some \<lparr>name = ''search_engine'', handle = 1\<rparr>) 1 cold_state)) = 1 \<and>
   fst (safeToolInvoke dead_world (Some \<lparr>name = ''scrape_as_markdown'', handle = 2\<rparr>) 1 cold_state)
     = Inl (Error (Some ''No active transport'')) \<and>
   invocations (snd (safeToolInvoke dead_world (Some \<lparr>name = ''scrape_as_markdown'', handle = 2\<rparr>) 1 cold_state)) = 2"
  using safeToolInvoke_retries_at_most_once
          [of flaky_world "\<lparr>name = ''search_engine'', handle = 1\<rparr>" cold_state]
        safeToolInvoke_retries_at_most_once
          [of dead_world "\<lparr>name = ''scrape_as_markdown'', handle = 2\<rparr>" cold_state]
  by (simp add: Let_def flaky_world_def dead_world_def cold_state_def initializeMCP_def
        find_tool_def isTransportError_def)


subsection \<open>api\_server.js: coverage\<close>

lemma one_day_range:
  "date_loop utc_host (new_Date utc_host ''2026-01-03'') (new_Date utc_host ''2026-01-03'') [] = Some [''2026-01-03'']"
  by (simp add: date_loop.simps date_eval utc_host_def)






lemma coverage_of_keys: "coverage_of g = Inr cov \<Longrightarrow> map fst cov = map fst g"
  by (induction g arbitrary: cov) (auto split: sum.splits)




text \<open>
  Claim C10, at two inputs where the code does not do what the claim says.  A
  \<^verbatim>\<open>start_time\<close> whose day portion is \<^verbatim>\<open>constructor\<close> is no day of the range, but
  \<^verbatim>\<open>grouped["constructor"]\<close> finds the member that \<open>grouped\<close> inherits from \<^verbatim>\<open>Object.prototype\<close>,
  and the \<^verbatim>\<open>push\<close> on it throws.  An event of a day of the range whose \<^verbatim>\<open>start_time\<close> is the
  calendar date alone is put into the bucket of its day, and the computation of the
  flags throws on the missing time.  In both cases no day receives an entry.
\<close>

theorem analyzeEventCoverage_throws:
  "analyzeEventCoverage utc_host [event_at ''Gala'' ''constructor''] ''2026-01-03'' ''2026-01-03'' =
     Some (Inl (Error (Some ''grouped[eventDate].push is not a function''))) \<and>
   analyzeEventCoverage utc_host [event_at ''Gala'' ''2026-01-03''] ''2026-01-03'' ''2026-01-03'' =
     Some (Inl (TypeError_reading ''undefined'' ''split''))"
  by (simp add: one_day_range coverage_eval event_at_def json_eval)

subsection \<open>Explorer: batches, rejected links, events\<close>






lemma analyzeBatch_returns:
  assumes "analyzeBatch w reqs b c = (Inr res, reqs')"
  shows "res = batch_outcome w c (length reqs) b" and "reqs' = reqs @ [AnalysisPrompt b c]"
  using assms
  by (auto simp: analyzeBatch_def batch_outcome_def split: sum.splits)

lemma batch_outcome_rejected_array:
  "\<not> batch_success (batch_outcome w c n b) \<Longrightarrow>
   \<exists>e. analysis_try w n b c = Inl e \<and> batch_outcome w c n b = batch_failed b e"
  by (cases "analysis_try w n b c")
     (auto simp: batch_outcome_def analysis_try_def split: response.splits sum.splits)

lemma explore_batch_step:
  assumes "explore_batch w c b st = Inr st'"
  shows "explorer_requests st' = explorer_requests st @ [AnalysisPrompt b c]"
    and "allEvents st' = allEvents st @ events_of_batch w c (length (explorer_requests st)) b"
    and "allRejected st' = allRejected st @ rejected_of_batch w c (length (explorer_requests st)) b"
proof -
  from assms obtain res reqs where ab: "analyzeBatch w (explorer_requests st) b c = (Inr res, reqs)"
    by (auto simp: explore_batch_def split: prod.splits sum.splits)
  note r = analyzeBatch_returns[OF ab]
  from assms ab r
  show "explorer_requests st' = explorer_requests st @ [AnalysisPrompt b c]"
    by (auto simp: explore_batch_def split: sum.splits if_splits)
  from assms ab r
  show "allEvents st' = allEvents st @ events_of_batch w c (length (explorer_requests st)) b"
    by (auto simp: explore_batch_def events_of_batch_def split: sum.splits if_splits)
  from assms ab r
  show "allRejected st' = allRejected st @ rejected_of_batch w c (length (explorer_requests st)) b"
    by (auto simp: explore_batch_def rejected_of_batch_def split: sum.splits if_splits)
qed

lemma explore_batches_accumulate:
  "explore_batches w c bs st = Inr st' \<Longrightarrow>
     explorer_requests st' = explorer_requests st @ map (\<lambda>b. AnalysisPrompt b c) bs \<and>
     allEvents st' = allEvents st
        @ concat (map (\<lambda>(n, b). events_of_batch w c n b) (enumerate (length (explorer_requests st)) bs)) \<and>
     allRejected st' = allRejected st
        @ concat (map (\<lambda>(n, b). rejected_of_batch w c n b) (enumerate (length (explorer_requests st)) bs))"
proof (induction bs arbitrary: st)
  case Nil
  then show ?case by simp
next
  case (Cons b bs)
  from Cons.prems obtain st1 where
    s1: "explore_batch w c b st = Inr st1" and rest: "explore_batches w c bs st1 = Inr st'"
    by (auto split: sum.splits)
  note a = explore_batch_step[OF s1]
  from Cons.IH[OF rest] a show ?case by simp
qed

lemma dedupe_events_acc:
  "dedupe_events evs seen uniq = Inr out \<Longrightarrow> \<exists>new. out = uniq @ new \<and> set new \<subseteq> set evs"
proof (induction evs arbitrary: seen uniq)
  case Nil
  then show ?case by simp
next
  case (Cons ev evs)
  from Cons.prems obtain key where k: "event_key ev = Inr key"
    by (auto split: sum.splits)
  show ?case
  proof (cases "key \<in> set seen")
    case True
    with Cons.prems k have "dedupe_events evs seen uniq = Inr out" by simp
    from Cons.IH[OF this] show ?thesis by auto
  next
    case False
    with Cons.prems k have "dedupe_events evs (seen @ [key]) (uniq @ [ev]) = Inr out" by simp
    from Cons.IH[OF this] obtain new where "out = (uniq @ [ev]) @ new" "set new \<subseteq> set evs" by blast
    then show ?thesis by (intro exI[of _ "ev # new"]) auto
  qed
qed

lemma set_insert_sorted: "set (insert_sorted cmp x ys) = insert x (set ys)"
  by (induction ys) auto

lemma set_js_sort_aux: "set (foldl (\<lambda>acc x. insert_sorted cmp x acc) acc xs) = set acc \<union> set xs"
  by (induction xs arbitrary: acc) (auto simp: set_insert_sorted)

lemma set_js_sort: "set (js_sort cmp xs) = set xs"
  by (simp add: js_sort_def set_js_sort_aux)

lemma exploreLinks_cases:
  assumes "exploreLinks w ls c = Inr r"
  shows "(ls = [] \<and> events r = [] \<and> rejected r = [] \<and> totalEvents r = 0) \<or>
         (\<exists>st u. explore_batches w c (make_batches ls 0)
                   \<lparr>explorer_requests = [], allEvents = [], allRejected = [], totalAnalyzed = JNum 0 0\<rparr> = Inr st
                 \<and> dedupe_events (allEvents st) [] [] = Inr u
                 \<and> events r = js_sort (compare_start (host w)) u
                 \<and> totalEvents r = length u
                 \<and> rejected r = allRejected st)"
  using assms
  by (auto simp: exploreLinks_def split: if_splits sum.splits)

lemma make_batches_Nil: "make_batches [] 0 = []"
  by (subst make_batches.simps) simp










lemma exploreLinks_accumulates:
  assumes run: "exploreLinks w ls c = Inr r"
  shows "rejected r = concat (map (\<lambda>(n, b). rejected_of_batch w c n b) (enumerate 0 (make_batches ls 0))) \<and>
         (\<exists>u. dedupe_events (concat (map (\<lambda>(n, b). events_of_batch w c n b) (enumerate 0 (make_batches ls 0)))) [] []
               = Inr u \<and>
              events r = js_sort (compare_start (host w)) u \<and> totalEvents r = length u)"
  using exploreLinks_cases[OF run]
proof
  assume "ls = [] \<and> events r = [] \<and> rejected r = [] \<and> totalEvents r = 0"
  then show ?thesis by (simp add: make_batches_Nil js_sort_def)
next
  assume "\<exists>st u. explore_batches w c (make_batches ls 0)
                 \<lparr>explorer_requests = [], allEvents = [], allRejected = [], totalAnalyzed = JNum 0 0\<rparr> = Inr st
               \<and> dedupe_events (allEvents st) [] [] = Inr u
               \<and> events r = js_sort (compare_start (host w)) u
               \<and> totalEvents r = length u
               \<and> rejected r = allRejected st"
  then obtain st u where
    st: "explore_batches w c (make_batches ls 0)
           \<lparr>explorer_requests = [], allEvents = [], allRejected = [], totalAnalyzed = JNum 0 0\<rparr> = Inr st"
    and u: "dedupe_events (allEvents st) [] [] = Inr u"
    and ev: "events r = js_sort (compare_start (host w)) u"
    and te: "totalEvents r = length u"
    and rj: "rejected r = allRejected st"
    by blast
  from explore_batches_accumulate[OF st] u ev te rj show ?thesis by simp
qed





lemma fest_answer_parsed:
  "extractJSON3 ''Explorer'' (Some fest_answer) =
     Inr (JObj [(''valid_events'',
            JArr [event_at ''Winter Jazz Fest'' ''2026-01-03T20:00:00'',
                  event_at ''Winter Jazz Fest-2026'' ''01-03T20:00:00''])])"
  by (simp add: extractJSON3_def fest_answer_def quoted_def json_eval event_at_def)

lemma meetup_answer_parsed:
  "extractJSON3 ''Explorer'' (Some meetup_answer) = Inr (JObj [(''valid_events'', JArr [meetup_event])])"
  by (simp add: extractJSON3_def meetup_answer_def quoted_def json_eval meetup_event_def)



lemma fest_run:
  "exploreLinks fest_world [link_to ''u01''] ''New York'' =
     Inr \<lparr>requests_made = [AnalysisPrompt [link_to ''u01''] ''New York''],
          events = [event_at ''Winter Jazz Fest'' ''2026-01-03T20:00:00''],
          explorer_totalAnalyzed = JNum 1 0, totalEvents = 1, rejected = []\<rparr>"
  by (simp add: make_batches.simps[of _ 0] make_batches.simps[of _ 5] explorer_run explorer_eval
      fest_world_def fest_answer_parsed event_at_def)

lemma meetup_run:
  "exploreLinks meetup_world [link_to ''u01''] ''New York'' =
     Inr \<lparr>requests_made = [AnalysisPrompt [link_to ''u01''] ''New York''],
          events = [meetup_event],
          explorer_totalAnalyzed = JNum 1 0, totalEvents = 1, rejected = []\<rparr>"
  by (simp add: make_batches.simps[of _ 0] make_batches.simps[of _ 5] explorer_run explorer_eval
      meetup_world_def meetup_answer_parsed meetup_event_def)







text \<open>
  Claim C1, at an input where the code does not do what the claim says.  The two events
  of the answer differ in name and in \<^verbatim>\<open>start_time\<close>, but name and \<^verbatim>\<open>start_time\<close> joined by a
  hyphen are the same text for both; \<^verbatim>\<open>exploreLinks\<close> takes the second for a duplicate of the
  first and returns one event.
\<close>

theorem exploreLinks_drops_distinct_pair:
  "event_key (event_at ''Winter Jazz Fest'' ''2026-01-03T20:00:00'')
     = event_key (event_at ''Winter Jazz Fest-2026'' ''01-03T20:00:00'') \<and>
   map_sum id (\<lambda>r. (events r, totalEvents r)) (exploreLinks fest_world [link_to ''u01''] ''New York'')
     = Inr ([event_at ''Winter Jazz Fest'' ''2026-01-03T20:00:00''], 1)"
  by (simp add: fest_run event_key_def get_prop_def event_at_def)

text \<open>
  Claim C9, as stated, fails: the event that \<^verbatim>\<open>exploreLinks\<close> returns for this answer still
  has its \<^verbatim>\<open>interest_matched\<close> and its \<^verbatim>\<open>target_date\<close>.
\<close>

theorem exploreLinks_keeps_provenance_counterexample:
  "map_sum id events (exploreLinks meetup_world [link_to ''u01''] ''New York'') = Inr [meetup_event] \<and>
   get_prop meetup_event ''interest_matched'' = Inr (JStr ''Technology'') \<and>
   get_prop meetup_event ''target_date'' = Inr (JStr ''2026-01-03'')"
  by (simp add: meetup_run get_prop_def meetup_event_def)

lemma map_of_filter_key:
  "map_of (filter (\<lambda>p. Q (fst p)) kvs) k = (if Q k then map_of kvs k else None)"
  by (induction kvs) auto

lemma map_events_Inr:
  "map_events f xs = Inr ys \<Longrightarrow> length ys = length xs \<and> (\<forall>i<length xs. f (xs ! i) = Inr (ys ! i))"
proof (induction xs arbitrary: ys)
  case Nil
  then show ?case by simp
next
  case (Cons x xs)
  from Cons.prems obtain y ys' where
    y: "f x = Inr y" and r: "map_events f xs = Inr ys'" and e: "ys = y # ys'"
    by (auto split: sum.splits)
  from Cons.IH[OF r] y e show ?case by (auto simp: nth_Cons split: nat.splits)
qed

lemma map_events_runs:
  "\<forall>x\<in>set xs. \<exists>y. f x = Inr y \<Longrightarrow> \<exists>ys. map_events f xs = Inr ys"
proof (induction xs)
  case Nil
  show ?case by simp
next
  case (Cons x xs)
  then obtain y ys where "f x = Inr y" "map_events f xs = Inr ys" by auto
  then show ?case by simp
qed

lemma exploreLinks_events_subset:
  assumes "exploreLinks w ls c = Inr r"
  shows "set (events r)
           \<subseteq> set (concat (map (\<lambda>(n, b). events_of_batch w c n b) (enumerate 0 (make_batches ls 0))))"
proof -
  from exploreLinks_accumulates[OF assms] obtain u where
    u: "dedupe_events (concat (map (\<lambda>(n, b). events_of_batch w c n b) (enumerate 0 (make_batches ls 0)))) [] []
          = Inr u" and
    ev: "events r = js_sort (compare_start (host w)) u"
    by blast
  from dedupe_events_acc[OF u] ev show ?thesis by (auto simp: set_js_sort)
qed

text \<open>
  Claim C9, amended.  Every event that \<^verbatim>\<open>exploreLinks\<close> returns is one of the events of the
  analyses, as the analysis gave it: nothing is stripped there.  The two fields are
  removed by \<^verbatim>\<open>Logger.logFinalItinerary\<close>, in the copy of each event that goes to the
  itinerary file: it returns for every list without \<^verbatim>\<open>null\<close> and \<^verbatim>\<open>undefined\<close>, each copy is the
  event without \<^verbatim>\<open>interest_matched\<close> and \<^verbatim>\<open>target_date\<close>, and every other property of an
  event is in its copy, unchanged.
\<close>

theorem provenance_stripped_by_logger:
  "(exploreLinks w ls c = Inr r \<longrightarrow>
      set (events r)
        \<subseteq> set (concat (map (\<lambda>(n, b). events_of_batch w c n b) (enumerate 0 (make_batches ls 0))))) \<and>
   ((\<forall>x\<in>set evs. x \<noteq> JNull \<and> x \<noteq> JUndefined) \<longrightarrow> (\<exists>out. logFinalItinerary evs = Inr out)) \<and>
   (logFinalItinerary evs = Inr out \<longrightarrow>
      length out = length evs \<and>
      (\<forall>i<length evs.
         out ! i = JObj (filter (\<lambda>p. fst p \<noteq> ''interest_matched'' \<and> fst p \<noteq> ''target_date'')
                           (spread_props (evs ! i))) \<and>
         get_prop (out ! i) ''interest_matched'' = Inr JUndefined \<and>
         get_prop (out ! i) ''target_date'' = Inr JUndefined \<and>
         (\<forall>kvs k. evs ! i = JObj kvs \<and> k \<noteq> ''interest_matched'' \<and> k \<noteq> ''target_date''
            \<longrightarrow> get_prop (out ! i) k = get_prop (evs ! i) k)))"
proof (intro conjI impI)
  assume "exploreLinks w ls c = Inr r"
  from exploreLinks_events_subset[OF this]
  show "set (events r)
        \<subseteq> set (concat (map (\<lambda>(n, b). events_of_batch w c n b) (enumerate 0 (make_batches ls 0))))" .
next
  assume "\<forall>x\<in>set evs. x \<noteq> JNull \<and> x \<noteq> JUndefined"
  then have "\<forall>x\<in>set evs. \<exists>y. clean_event x = Inr y" by (simp add: clean_event_def)
  from map_events_runs[OF this] show "\<exists>out. logFinalItinerary evs = Inr out"
    by (simp add: logFinalItinerary_def)
next
  assume "logFinalItinerary evs = Inr out"
  then have m: "map_events clean_event evs = Inr out" by (simp add: logFinalItinerary_def)
  from map_events_Inr[OF m] show "length out = length evs" by simp
next
  assume "logFinalItinerary evs = Inr out"
  then have m: "map_events clean_event evs = Inr out" by (simp add: logFinalItinerary_def)
  show "\<forall>i<length evs.
         out ! i = JObj (filter (\<lambda>p. fst p \<noteq> ''interest_matched'' \<and> fst p \<noteq> ''target_date'')
                           (spread_props (evs ! i))) \<and>
         get_prop (out ! i) ''interest_matched'' = Inr JUndefined \<and>
         get_prop (out ! i) ''target_date'' = Inr JUndefined \<and>
         (\<forall>kvs k. evs ! i = JObj kvs \<and> k \<noteq> ''interest_matched'' \<and> k \<noteq> ''target_date''
            \<longrightarrow> get_prop (out ! i) k = get_prop (evs ! i) k)"
  proof (intro allI impI)
    fix i assume i: "i < length evs"
    with map_events_Inr[OF m] have c: "clean_event (evs ! i) = Inr (out ! i)" by blast
    then have o: "out ! i = JObj (filter (\<lambda>p. fst p \<noteq> ''interest_matched'' \<and> fst p \<noteq> ''target_date'')
                           (spread_props (evs ! i)))"
      by (simp add: clean_event_def split: if_splits)
    have f: "\<And>k. map_of (filter (\<lambda>p. fst p \<noteq> ''interest_matched'' \<and> fst p \<noteq> ''target_date'')
                           (spread_props (evs ! i))) k
              = (if k \<noteq> ''interest_matched'' \<and> k \<noteq> ''target_date''
                 then map_of (spread_props (evs ! i)) k else None)"
      by (rule map_of_filter_key[where Q = "\<lambda>k. k \<noteq> ''interest_matched'' \<and> k \<noteq> ''target_date''"])
    have g1: "get_prop (out ! i) ''interest_matched'' = Inr JUndefined"
      by (simp add: o get_prop_def f)
    have g2: "get_prop (out ! i) ''target_date'' = Inr JUndefined"
      by (simp add: o get_prop_def f)
    have g3: "\<forall>kvs k. evs ! i = JObj kvs \<and> k \<noteq> ''interest_matched'' \<and> k \<noteq> ''target_date''
            \<longrightarrow> get_prop (out ! i) k = get_prop (evs ! i) k"
    proof (intro allI impI)
      fix kvs k
      assume a: "evs ! i = JObj kvs \<and> k \<noteq> ''interest_matched'' \<and> k \<noteq> ''target_date''"
      from f[of k] a
      have "map_of (filter (\<lambda>p. fst p \<noteq> ''interest_matched'' \<and> fst p \<noteq> ''target_date'') kvs) k
              = map_of kvs k"
        by (simp add: spread_props_def)
      with a show "get_prop (out ! i) k = get_prop (evs ! i) k"
        by (simp add: o get_prop_def spread_props_def)
    qed
    from o g1 g2 g3
    show "out ! i = JObj (filter (\<lambda>p. fst p \<noteq> ''interest_matched'' \<and> fst p \<noteq> ''target_date'')
                           (spread_props (evs ! i))) \<and>
         get_prop (out ! i) ''interest_matched'' = Inr JUndefined \<and>
         get_prop (out ! i) ''target_date'' = Inr JUndefined \<and>
         (\<forall>kvs k. evs ! i = JObj kvs \<and> k \<noteq> ''interest_matched'' \<and> k \<noteq> ''target_date''
            \<longrightarrow> get_prop (out ! i) k = get_prop (evs ! i) k)"
      by blast
  qed
qed

theorem provenance_stripped_by_logger_witness:
  "(\<exists>r. exploreLinks meetup_world [link_to ''u01''] ''New York'' = Inr r \<and>
        set (events r) \<subseteq> {meetup_event}) \<and>
   logFinalItinerary [meetup_event] = Inr [event_at ''Tech Meetup'' ''2026-01-03T18:00:00'']"
proof -
  let ?r = "\<lparr>requests_made = [AnalysisPrompt [link_to ''u01''] ''New York''],
          events = [meetup_event],
          explorer_totalAnalyzed = JNum 1 0, totalEvents = 1, rejected = []\<rparr>"
  note th = provenance_stripped_by_logger[of meetup_world "[link_to ''u01'']" "''New York''" ?r "[meetup_event]"]
  note t1 = th[THEN conjunct1, THEN mp, OF meetup_run]
  note t2 = th[THEN conjunct2, THEN conjunct1, THEN mp]
  note t3 = th[THEN conjunct2, THEN conjunct2, THEN mp]
  have ev: "concat (map (\<lambda>(n, b). events_of_batch meetup_world ''New York'' n b)
              (enumerate 0 (make_batches [link_to ''u01''] 0))) = [meetup_event]"
    by (simp add: make_batches.simps[of _ 0] make_batches.simps[of _ 5] batchSize_def slice_def
        events_of_batch_def batch_outcome_def meetup_world_def explorer_eval meetup_answer_parsed)
  from t1 have a: "set (events ?r) \<subseteq> {meetup_event}" by (simp only: ev) simp
  have "\<forall>x\<in>set [meetup_event]. x \<noteq> JNull \<and> x \<noteq> JUndefined" by (simp add: meetup_event_def)
  from t2[OF this] obtain out where out: "logFinalItinerary [meetup_event] = Inr out" ..
  note t = t3[OF out]
  from t have l: "length out = length [meetup_event]" by (rule conjunct1)
  from t have "0 < length [meetup_event] \<longrightarrow>
      out ! 0 = JObj (filter (\<lambda>p. fst p \<noteq> ''interest_matched'' \<and> fst p \<noteq> ''target_date'')
                           (spread_props ([meetup_event] ! 0)))"
    by blast
  then have "out ! 0 = event_at ''Tech Meetup'' ''2026-01-03T18:00:00''"
    by (simp add: meetup_event_def spread_props_def event_at_def)
  with l have "out = [event_at ''Tech Meetup'' ''2026-01-03T18:00:00'']"
    by (cases out) simp_all
  with out have b: "logFinalItinerary [meetup_event] = Inr [event_at ''Tech Meetup'' ''2026-01-03T18:00:00'']"
    by simp
  from a meetup_run have "\<exists>r. exploreLinks meetup_world [link_to ''u01''] ''New York'' = Inr r \<and>
        set (events r) \<subseteq> {meetup_event}"
    by (intro exI[of _ ?r] conjI)
  with b show ?thesis by (rule conjI[rotated])
qed

subsection \<open>scout.js\<close>




































lemma getDateRange_before_dst_start:
  "getDateRange new_york_host ''2026-10-30'' ''2026-10-31'' = Some [''2026-10-30'', ''2026-10-31'']"
  by (simp add: date_loop.simps date_eval new_york_host_def)



end
